theory Spec2Isabelle
  imports Complex_Main "HOL-Library.Sublist"
begin

section \<open>JavaScript strings and values\<close>

text \<open>
  The edge functions are TypeScript run by Deno. A JavaScript string is a sequence of
  UTF-16 code units; here a string is a \<open>char list\<close>, every \<open>char\<close> standing for the code
  unit of the same value, so the texts covered are those in the Latin-1 range. The
  white space of \<open>String.prototype.trim\<close> and of the regular-expression class \<open>\s\<close> is,
  in that range, TAB, LF, VT, FF, CR, SPACE and NBSP.
\<close>

definition is_space :: "char \<Rightarrow> bool" where
  "is_space c \<longleftrightarrow> c \<in> set [CHR 0x09, CHR 0x0A, CHR 0x0B, CHR 0x0C, CHR 0x0D, CHR 0x20, CHR 0xA0]"

definition is_digit :: "char \<Rightarrow> bool" where
  "is_digit c \<longleftrightarrow> c \<in> set ''0123456789''"

definition trim :: "string \<Rightarrow> string" where
  "trim s = rev (dropWhile is_space (rev (dropWhile is_space s)))"

text \<open>\<open>Array.prototype.join\<close> on an array of strings.\<close>

fun join :: "string \<Rightarrow> string list \<Rightarrow> string" where
  "join sep [] = []"
| "join sep [x] = x"
| "join sep (x # y # ys) = x @ sep @ join sep (y # ys)"

text \<open>
  \<open>String.prototype.split\<close> with a regular expression of the form \<open>[...]+\<close>: the text is
  cut at every maximal run of separator characters. \<open>cur\<close> is the piece being read and
  \<open>in_run\<close> tells that the previous character was a separator. The empty text gives one
  empty piece, a separator at either end gives an empty piece there.
\<close>

fun split_runs :: "(char \<Rightarrow> bool) \<Rightarrow> string \<Rightarrow> bool \<Rightarrow> string \<Rightarrow> string list" where
  "split_runs sep cur in_run [] = [cur]"
| "split_runs sep cur in_run (c # cs) =
     (if sep c then (if in_run then split_runs sep cur True cs
                     else cur # split_runs sep [] True cs)
      else split_runs sep (cur @ [c]) False cs)"

section \<open>JavaScript values\<close>

text \<open>
  The extracted data is a \<open>Record<string, unknown>\<close> built by \<open>JSON.parse\<close>. A value is
  modelled with its structure, except for numbers: a number is kept as the two things the
  code observes of it, its truthiness (false for \<open>0\<close>, \<open>-0\<close> and \<open>NaN\<close>) and the text
  \<open>String\<close> gives for it.
\<close>

datatype jsval =
    JUndefined
  | JNull
  | JBool bool
  | JNum bool string
  | JStr string
  | JArr "jsval list"
  | JObj "(string \<times> jsval) list"

fun truthy :: "jsval \<Rightarrow> bool" where
  "truthy JUndefined = False"
| "truthy JNull = False"
| "truthy (JBool b) = b"
| "truthy (JNum t r) = t"
| "truthy (JStr s) = (s \<noteq> [])"
| "truthy (JArr xs) = True"
| "truthy (JObj kvs) = True"

text \<open>
  \<open>String(v)\<close>. An array is rendered as its elements joined by commas, \<open>null\<close> and
  \<open>undefined\<close> elements giving the empty text; a plain object as \<open>[object Object]\<close>.
\<close>

fun js_String :: "jsval \<Rightarrow> string" where
  "js_String JUndefined = ''undefined''"
| "js_String JNull = ''null''"
| "js_String (JBool b) = (if b then ''true'' else ''false'')"
| "js_String (JNum t r) = r"
| "js_String (JStr s) = s"
| "js_String (JArr xs) =
     join '','' (map (\<lambda>x. if x = JUndefined \<or> x = JNull then [] else js_String x) xs)"
| "js_String (JObj kvs) = ''[object Object]''"

text \<open>
  \<open>v[k]\<close> for one of the keys the functions read (none of them is a property of a
  prototype): \<open>None\<close> is the TypeError raised on \<open>null\<close> and \<open>undefined\<close>; \<open>v?.[k]\<close> gives
  \<open>undefined\<close> there. In an object built by \<open>JSON.parse\<close> the last of several equal keys
  wins.
\<close>

fun get_prop :: "jsval \<Rightarrow> string \<Rightarrow> jsval option" where
  "get_prop JUndefined k = None"
| "get_prop JNull k = None"
| "get_prop (JObj kvs) k = (case map_of (rev kvs) k of None \<Rightarrow> Some JUndefined | Some v \<Rightarrow> Some v)"
| "get_prop v k = Some JUndefined"

definition get_opt :: "jsval \<Rightarrow> string \<Rightarrow> jsval" where
  "get_opt v k = (case get_prop v k of None \<Rightarrow> JUndefined | Some x \<Rightarrow> x)"

text \<open>\<open>a || b\<close>\<close>

definition js_or :: "jsval \<Rightarrow> jsval \<Rightarrow> jsval" where
  "js_or a b = (if truthy a then a else b)"

text \<open>A value read as a record: the value of each property, \<open>undefined\<close> when absent.\<close>

definition props :: "jsval \<Rightarrow> string \<Rightarrow> jsval" where
  "props v = (\<lambda>k. get_opt v k)"


section \<open>Text chunker (enhanced pipeline)\<close>

text \<open>
  \<^verbatim>\<open>
  function chunkText(text: string, maxChunkSize: number = 500): string[] {
    const sentences = text.split(/[.!?]+/).filter(s => s.trim());
    const chunks = [];
    let currentChunk = '';
    for (const sentence of sentences) {
      if ((currentChunk + sentence).length > maxChunkSize && currentChunk) {
        chunks.push(currentChunk.trim());
        currentChunk = sentence.trim();
      } else {
        currentChunk += (currentChunk ? '. ' : '') + sentence.trim();
      }
    }
    if (currentChunk) chunks.push(currentChunk.trim());
    return chunks.filter(chunk => chunk.length > 20); // Remove very short chunks
  }
  \<close>
  \<open>maxChunkSize\<close> is taken as an integer. The loop state is the pair of \<open>chunks\<close> and
  \<open>currentChunk\<close>; \<open>assemble\<close> is the array \<open>chunks\<close> as it stands before the last line.
\<close>

definition is_terminator :: "char \<Rightarrow> bool" where
  "is_terminator c \<longleftrightarrow> c \<in> set ''.!?''"

definition sentences :: "string \<Rightarrow> string list" where
  "sentences text = filter (\<lambda>s. trim s \<noteq> []) (split_runs is_terminator [] False text)"

definition chunk_step :: "int \<Rightarrow> string list \<times> string \<Rightarrow> string \<Rightarrow> string list \<times> string" where
  "chunk_step maxChunkSize st sentence =
     (case st of (chunks, currentChunk) \<Rightarrow>
        if int (length (currentChunk @ sentence)) > maxChunkSize \<and> currentChunk \<noteq> []
        then (chunks @ [trim currentChunk], trim sentence)
        else (chunks, currentChunk @ (if currentChunk \<noteq> [] then ''. '' else []) @ trim sentence))"

definition chunk_flush :: "string list \<times> string \<Rightarrow> string list" where
  "chunk_flush st =
     (case st of (chunks, currentChunk) \<Rightarrow>
        if currentChunk \<noteq> [] then chunks @ [trim currentChunk] else chunks)"

definition assemble :: "int \<Rightarrow> string list \<Rightarrow> string list" where
  "assemble maxChunkSize ss = chunk_flush (foldl (chunk_step maxChunkSize) ([], []) ss)"

definition chunkText :: "string \<Rightarrow> int \<Rightarrow> string list" where
  "chunkText text maxChunkSize =
     filter (\<lambda>chunk. length chunk > 20) (assemble maxChunkSize (sentences text))"

text \<open>
  A text is \<open>clean\<close> when it is not empty and neither begins nor ends with white space:
  \<open>trim\<close> leaves it as it is.
\<close>

definition clean :: "string \<Rightarrow> bool" where
  "clean s \<longleftrightarrow> s \<noteq> [] \<and> \<not> is_space (hd s) \<and> \<not> is_space (last s)"

section \<open>Field validator (enhanced pipeline)\<close>

subsection \<open>The regular expressions\<close>

text \<open>
  With the flag \<open>i\<close> a pattern letter matches the text characters of the same canonical
  form; no character outside ASCII has the canonical form of an ASCII letter, so \<open>upper\<close>
  needs to change the ASCII letters only.
\<close>

definition upper :: "char \<Rightarrow> char" where
  "upper c = (case map_of (zip ''abcdefghijklmnopqrstuvwxyz'' ''ABCDEFGHIJKLMNOPQRSTUVWXYZ'') c of
                Some u \<Rightarrow> u | None \<Rightarrow> c)"

definition is_letter :: "char \<Rightarrow> bool" where
  "is_letter c \<longleftrightarrow> upper c \<in> set ''ABCDEFGHIJKLMNOPQRSTUVWXYZ''"

definition starts_ci :: "string \<Rightarrow> string \<Rightarrow> bool" where
  "starts_ci p s \<longleftrightarrow> length p \<le> length s \<and> map upper (take (length p) s) = map upper p"

definition digits_between :: "nat \<Rightarrow> nat \<Rightarrow> string \<Rightarrow> bool" where
  "digits_between lo hi s \<longleftrightarrow> list_all is_digit s \<and> lo \<le> length s \<and> length s \<le> hi"

definition strip_spaces :: "string \<Rightarrow> string" where
  "strip_spaces s = filter (\<lambda>c. \<not> is_space c) s"

text \<open>
  \<^verbatim>\<open>/^(INV|INVOICE|#)?-?\d{3,10}$/i\<close>: the alternatives of the optional prefix in the
  order the matcher tries them, the last being the prefix left out; after the prefix
  the dash is taken or not, and the rest is 3 to 10 digits up to the end.
\<close>

definition invoice_ok :: "string \<Rightarrow> bool" where
  "invoice_ok s \<longleftrightarrow>
     list_ex (\<lambda>p. starts_ci p s \<and>
                (let r = drop (length p) s
                 in (r \<noteq> [] \<and> hd r = CHR ''-'' \<and> digits_between 3 10 (tl r)) \<or> digits_between 3 10 r))
       [''INV'', ''INVOICE'', ''#'', []]"

text \<open>\<^verbatim>\<open>/^\d{6,10}$/\<close>\<close>

definition hs_ok :: "string \<Rightarrow> bool" where
  "hs_ok s \<longleftrightarrow> digits_between 6 10 s"

text \<open>\<^verbatim>\<open>/^[A-Z]{4}\d{7}$/i\<close>\<close>

definition container_ok :: "string \<Rightarrow> bool" where
  "container_ok s \<longleftrightarrow> length s = 11 \<and> list_all is_letter (take 4 s) \<and> list_all is_digit (drop 4 s)"

text \<open>
  \<^verbatim>\<open>/(\d+(?:[.,]\d+)?)\s*(kg|lbs?|tons?|tonnes?)/i\<close>, matched at the start of \<open>t\<close>; the
  result is the first group. Each greedy part is followed by a part that cannot begin
  with a character the greedy part accepts, so giving characters back never leads to a
  match and the longest choice is the only one to look at.
\<close>

definition weight_units :: "string list" where
  "weight_units = [''kg'', ''lbs'', ''lb'', ''tons'', ''ton'', ''tonnes'', ''tonne'']"

definition unit_here :: "string \<Rightarrow> bool" where
  "unit_here t \<longleftrightarrow> list_ex (\<lambda>u. starts_ci u t) weight_units"

definition weight_at :: "string \<Rightarrow> string option" where
  "weight_at t =
     (let ds = takeWhile is_digit t; r1 = dropWhile is_digit t
      in if ds = [] then None
         else let (num, r2) =
                (case r1 of
                   c # r' \<Rightarrow>
                     if (c = CHR ''.'' \<or> c = CHR '','') \<and> takeWhile is_digit r' \<noteq> []
                     then (ds @ [c] @ takeWhile is_digit r', dropWhile is_digit r')
                     else (ds, r1)
                 | [] \<Rightarrow> (ds, r1))
              in if unit_here (dropWhile is_space r2) then Some num else None)"

text \<open>\<open>weight.match(...)\<close>: the match at the leftmost position that has one.\<close>

fun weight_match :: "string \<Rightarrow> string option" where
  "weight_match [] = weight_at []"
| "weight_match (c # cs) =
     (case weight_at (c # cs) of Some num \<Rightarrow> Some num | None \<Rightarrow> weight_match cs)"

text \<open>
  \<open>parseFloat(weightMatch[1].replace(',', '.'))\<close>. The first group is digits, or digits, a
  point or comma, and digits. The value is kept as the exact decimal; \<open>parseFloat\<close> rounds
  it to a double, which compares with 0 and with 100000 as the exact decimal does as long
  as the numeral has at most 15 characters.
\<close>

definition digit_val :: "char \<Rightarrow> nat" where
  "digit_val c = length (takeWhile (\<lambda>d. d \<noteq> c) ''0123456789'')"

definition nat_of_digits :: "string \<Rightarrow> nat" where
  "nat_of_digits ds = foldl (\<lambda>n c. 10 * n + digit_val c) 0 ds"

definition replace_comma :: "string \<Rightarrow> string" where
  "replace_comma s =
     takeWhile (\<lambda>c. c \<noteq> CHR '','') s @
     (case dropWhile (\<lambda>c. c \<noteq> CHR '','') s of [] \<Rightarrow> [] | c # r \<Rightarrow> CHR ''.'' # r)"

definition parseFloat_decimal :: "string \<Rightarrow> rat" where
  "parseFloat_decimal s =
     (let ip = takeWhile is_digit s;
          fp = (case dropWhile is_digit s of
                  c # r \<Rightarrow> if c = CHR ''.'' then takeWhile is_digit r else []
                | [] \<Rightarrow> [])
      in of_nat (nat_of_digits ip) + of_nat (nat_of_digits fp) / 10 ^ length fp)"

text \<open>
  \<^verbatim>\<open>/\d{1,2}[-\/]\d{1,2}[-\/]\d{2,4}/\<close> at the start of \<open>t\<close>: each of the first two
  numbers is tried with two digits, then with one; two digits are enough for the last.
\<close>

fun take_digits :: "nat \<Rightarrow> string \<Rightarrow> string option" where
  "take_digits 0 t = Some t"
| "take_digits (Suc n) [] = None"
| "take_digits (Suc n) (c # cs) = (if is_digit c then take_digits n cs else None)"

definition take_datesep :: "string \<Rightarrow> string option" where
  "take_datesep t = (case t of [] \<Rightarrow> None | c # r \<Rightarrow> if c = CHR ''-'' \<or> c = CHR ''/'' then Some r else None)"

definition date_at :: "string \<Rightarrow> bool" where
  "date_at t \<longleftrightarrow>
     list_ex (\<lambda>i. list_ex (\<lambda>j.
        (case Option.bind (Option.bind (Option.bind (Option.bind (take_digits i t) take_datesep)
                 (take_digits j)) take_datesep) (take_digits 2) of
           None \<Rightarrow> False | Some r \<Rightarrow> True)) [2, 1]) [2, 1]"

fun date_test :: "string \<Rightarrow> bool" where
  "date_test [] = date_at []"
| "date_test (c # cs) = (date_at (c # cs) \<or> date_test cs)"

text \<open>\<^verbatim>\<open>/\d+/\<close>\<close>

definition quantity_ok :: "string \<Rightarrow> bool" where
  "quantity_ok s \<longleftrightarrow> list_ex is_digit s"

subsection \<open>validateDocument\<close>

text \<open>
  \<^verbatim>\<open>
  function validateDocument(extracted: Record<string, unknown>) {
    const errors: string[] = [];
    const warnings: string[] = [];
    const requiredFields = ['supplier', 'buyer', 'product'];
    requiredFields.forEach(field => {
      if (!extracted[field] || (typeof extracted[field] === 'string' && !(extracted[field] as string).trim())) {
        errors.push(`Missing required field: ${field}`);
      }
    });
    if (extracted.invoiceNumber) { ... }
    if (extracted.hsCode) { ... }
    if (extracted.containerNo) {
      const containerNo = String(extracted.containerNo).replace(/\s/g, '');
      if (!/^[A-Z]{4}\d{7}$/i.test(containerNo)) {
        warnings.push('Container number format invalid (expected: ABCD1234567)');
      }
    }
    if (extracted.weight) {
      const weight = String(extracted.weight);
      const weightMatch = weight.match(/(\d+(?:[.,]\d+)?)\s*(kg|lbs?|tons?|tonnes?)/i);
      if (!weightMatch) {
        warnings.push('Weight format unclear (expected: number + unit like "1000 kg")');
      } else {
        const value = parseFloat(weightMatch[1].replace(',', '.'));
        if (value <= 0 || value > 100000) {
          warnings.push('Weight value seems unrealistic');
        }
      }
    }
    if (extracted.inspectionDate) { ... }
    if (extracted.quantityDeclared) { ... }
    return { passed: errors.length === 0, errors, warnings };
  }
  \<close>
  The record is given by the value of each property, \<open>JUndefined\<close> for a property that is
  absent. Each check is the list of the messages it pushes.
\<close>

type_synonym js_record = "string \<Rightarrow> jsval"

record validation =
  passed :: bool
  errors :: "string list"
  warnings :: "string list"

definition required_missing :: "jsval \<Rightarrow> bool" where
  "required_missing v \<longleftrightarrow> \<not> truthy v \<or> (case v of JStr s \<Rightarrow> trim s = [] | _ \<Rightarrow> False)"

definition required_errors :: "js_record \<Rightarrow> string list" where
  "required_errors extracted =
     concat (map (\<lambda>field. if required_missing (extracted field)
                           then [''Missing required field: '' @ field] else [])
                 [''supplier'', ''buyer'', ''product''])"

definition invoice_warnings :: "jsval \<Rightarrow> string list" where
  "invoice_warnings v =
     (if truthy v \<and> \<not> invoice_ok (js_String v)
      then [''Invoice number format may be invalid (expected: INV-12345 or similar)''] else [])"

definition hs_warnings :: "jsval \<Rightarrow> string list" where
  "hs_warnings v =
     (if truthy v \<and> \<not> hs_ok (strip_spaces (js_String v))
      then [''HS Code format invalid (expected: 6-10 digits)''] else [])"

definition container_warning :: string where
  "container_warning = ''Container number format invalid (expected: ABCD1234567)''"

definition container_warnings :: "jsval \<Rightarrow> string list" where
  "container_warnings v =
     (if truthy v \<and> \<not> container_ok (strip_spaces (js_String v))
      then [container_warning] else [])"

definition weight_unclear :: string where
  \<open>weight_unclear = ''Weight format unclear (expected: number + unit like "1000 kg")''\<close>

definition weight_unrealistic :: string where
  "weight_unrealistic = ''Weight value seems unrealistic''"

definition weight_warnings :: "jsval \<Rightarrow> string list" where
  "weight_warnings v =
     (if truthy v
      then (case weight_match (js_String v) of
              None \<Rightarrow> [weight_unclear]
            | Some num \<Rightarrow>
                (let value = parseFloat_decimal (replace_comma num)
                 in if value \<le> 0 \<or> value > 100000 then [weight_unrealistic] else []))
      else [])"

definition date_warnings :: "jsval \<Rightarrow> string list" where
  "date_warnings v =
     (if truthy v \<and> \<not> date_test (js_String v) then [''Inspection date format unclear''] else [])"

definition quantity_warnings :: "jsval \<Rightarrow> string list" where
  "quantity_warnings v =
     (if truthy v \<and> \<not> quantity_ok (js_String v)
      then [''Quantity format unclear (should contain numbers)''] else [])"

definition validateDocument :: "js_record \<Rightarrow> validation" where
  "validateDocument extracted =
     (let errors = required_errors extracted;
          warnings = invoice_warnings (extracted ''invoiceNumber'')
                   @ hs_warnings (extracted ''hsCode'')
                   @ container_warnings (extracted ''containerNo'')
                   @ weight_warnings (extracted ''weight'')
                   @ date_warnings (extracted ''inspectionDate'')
                   @ quantity_warnings (extracted ''quantityDeclared'')
      in \<lparr>passed = (errors = []), errors = errors, warnings = warnings\<rparr>)"

subsection \<open>The weight rule in the words of the specification\<close>

text \<open>
  ``A number followed by a recognized unit'': somewhere in the text there is a numeral
  (digits, or digits, a point or comma, and digits), then white space or nothing, then a
  unit. The units are those of the pattern, in any letter case: kg, lb, lbs, ton, tons,
  tonne, tonnes.
\<close>

definition is_weight_number :: "string \<Rightarrow> bool" where
  "is_weight_number num \<longleftrightarrow>
     (\<exists>ds. ds \<noteq> [] \<and> list_all is_digit ds \<and>
        (num = ds \<or>
         (\<exists>c fs. (c = CHR ''.'' \<or> c = CHR '','') \<and> fs \<noteq> [] \<and> list_all is_digit fs \<and> num = ds @ c # fs)))"

definition is_weight_unit :: "string \<Rightarrow> bool" where
  "is_weight_unit u \<longleftrightarrow> (\<exists>p\<in>set weight_units. map upper u = map upper p)"



subsection \<open>Example documents\<close>






section \<open>OCR and layout stages (enhanced pipeline)\<close>

text \<open>\<open>String.prototype.split\<close> with a separator of one character.\<close>

fun split_char :: "char \<Rightarrow> string \<Rightarrow> string list" where
  "split_char sep [] = [[]]"
| "split_char sep (c # cs) =
     (if c = sep then [] # split_char sep cs
      else (case split_char sep cs of p # ps \<Rightarrow> (c # p) # ps | [] \<Rightarrow> [[c]]))"

text \<open>
  \<^verbatim>\<open>
  async function performOCR(content: string): Promise<OCRResult> {
    const lines = content.split('\n').filter(line => line.trim());
    const blocks = lines.map((text, index) => ({
      text: text.trim(),
      bbox: [10 + (index % 3) * 200, 50 + Math.floor(index / 3) * 30,
             200 + (index % 3) * 200, 75 + Math.floor(index / 3) * 30],
      confidence: 0.85 + Math.random() * 0.14
    }));
    return { text: content, blocks };
  }
  \<close>
  The confidence of a block is random and is left out of the block.
\<close>

record ocr_block =
  block_text :: string
  block_bbox :: "nat list"

record ocr_result =
  ocr_text :: string
  blocks :: "ocr_block list"

definition nonblank_lines :: "string \<Rightarrow> string list" where
  "nonblank_lines content = filter (\<lambda>line. trim line \<noteq> []) (split_char CHR 0x0A content)"

definition performOCR :: "string \<Rightarrow> ocr_result" where
  "performOCR content =
     \<lparr>ocr_text = content,
      blocks = map (\<lambda>(index, text).
                  \<lparr>block_text = trim text,
                   block_bbox = [10 + (index mod 3) * 200, 50 + (index div 3) * 30,
                                 200 + (index mod 3) * 200, 75 + (index div 3) * 30]\<rparr>)
                (enumerate 0 (nonblank_lines content))\<rparr>"

text \<open>
  \<^verbatim>\<open>
  async function parseLayout(ocrResult: OCRResult): Promise<LayoutResult> {
    const content = ocrResult.text;
    const lines = content.split('\n').filter(line => line.trim());
    const keyValuePairs = [];
    const tableData = [];
    const sections = [];
    for (const line of lines) {
      // Detect key-value pairs (contains colon)
      if (line.includes(':') && !line.includes('|')) {
        const [key, ...valueParts] = line.split(':');
        keyValuePairs.push({ key: key.trim(), value: valueParts.join(':').trim(), bbox: [50, 100, 300, 120] });
      }
      // Detect table rows (contains pipe separator)
      else if (line.includes('|')) {
        const cells = line.split('|').map(cell => cell.trim());
        tableData.push(cells);
      }
    }
    const tables = tableData.length > 1 ? [{
      headers: tableData[0] || [],
      rows: tableData.slice(1),
      bbox: [50, 200, 500, 300]
    }] : [];
    sections.push(
      { type: 'header', content: lines.slice(0, 2).join(' '), bbox: [0, 0, 600, 50] },
      { type: 'body', content: content, bbox: [0, 50, 600, 400] },
      { type: 'footer', content: 'Document processed', bbox: [0, 400, 600, 450] }
    );
    return { text: content, structure: { sections, tables, keyValuePairs } };
  }
  \<close>
  The loop state is the pair of \<open>keyValuePairs\<close> (\<open>kvPairs\<close> below) and \<open>tableData\<close>. A split
  gives at least one piece, so the destructuring always finds its \<open>key\<close>.
\<close>

record key_value =
  kv_key :: string
  kv_value :: string
  kv_bbox :: "nat list"

record layout_table =
  headers :: "string list"
  rows :: "string list list"
  table_bbox :: "nat list"

record layout_section =
  section_type :: string
  section_content :: string
  section_bbox :: "nat list"

record layout_result =
  layout_text :: string
  sections :: "layout_section list"
  tables :: "layout_table list"
  keyValuePairs :: "key_value list"

definition key_value_of :: "string \<Rightarrow> key_value" where
  "key_value_of line =
     (case split_char CHR '':'' line of
        key # valueParts \<Rightarrow>
          \<lparr>kv_key = trim key, kv_value = trim (join '':'' valueParts), kv_bbox = [50, 100, 300, 120]\<rparr>
      | [] \<Rightarrow> \<lparr>kv_key = [], kv_value = [], kv_bbox = [50, 100, 300, 120]\<rparr>)"

definition cells_of :: "string \<Rightarrow> string list" where
  "cells_of line = map trim (split_char CHR ''|'' line)"

definition layout_step :: "key_value list \<times> string list list \<Rightarrow> string \<Rightarrow> key_value list \<times> string list list" where
  "layout_step st line =
     (case st of (kvPairs, tableData) \<Rightarrow>
        if CHR '':'' \<in> set line \<and> CHR ''|'' \<notin> set line
        then (kvPairs @ [key_value_of line], tableData)
        else if CHR ''|'' \<in> set line
        then (kvPairs, tableData @ [cells_of line])
        else (kvPairs, tableData))"

definition layout_scan :: "string list \<Rightarrow> key_value list \<times> string list list" where
  "layout_scan lines = foldl layout_step ([], []) lines"

definition tables_of :: "string list list \<Rightarrow> layout_table list" where
  "tables_of tableData =
     (if length tableData > 1
      then [\<lparr>headers = (case tableData of h # t \<Rightarrow> h | [] \<Rightarrow> []), rows = drop 1 tableData,
             table_bbox = [50, 200, 500, 300]\<rparr>]
      else [])"

definition parseLayout :: "ocr_result \<Rightarrow> layout_result" where
  "parseLayout ocrResult =
     (let content = ocr_text ocrResult;
          lines = nonblank_lines content;
          (kvPairs, tableData) = layout_scan lines
      in \<lparr>layout_text = content,
          sections = [\<lparr>section_type = ''header'', section_content = join '' '' (take 2 lines),
                        section_bbox = [0, 0, 600, 50]\<rparr>,
                      \<lparr>section_type = ''body'', section_content = content,
                        section_bbox = [0, 50, 600, 400]\<rparr>,
                      \<lparr>section_type = ''footer'', section_content = ''Document processed'',
                        section_bbox = [0, 400, 600, 450]\<rparr>],
          tables = tables_of tableData,
          keyValuePairs = kvPairs\<rparr>)"

section \<open>Calls to the external services\<close>

text \<open>
  An exception is kept as the name and the message of the error: \<open>String(error)\<close> is the
  two joined by a colon, \<open>error.message\<close> is the message.
\<close>

datatype js_error = Js_Error string string


fun error_message :: "js_error \<Rightarrow> string" where
  "error_message (Js_Error name msg) = msg"

text \<open>
  What one \<open>fetch\<close> of a service gives: the call throws (the network fails), or the
  response is not \<open>ok\<close> (with its \<open>statusText\<close> and the text of its body), or the body is
  not data of the expected form, or the data.
\<close>

datatype 'a service_reply =
    Call_Threw js_error
  | Call_Not_Ok string string
  | Call_Malformed
  | Call_Ok 'a

text \<open>\<open>JSON.parse\<close> is a parameter of the model: \<open>None\<close> is its SyntaxError.\<close>

type_synonym json_parser = "string \<Rightarrow> jsval option"

text \<open>\<open>v?.[0]\<close>, \<open>a ?? b\<close>, and \<open>data?.choices?.[0]?.message?.content ?? "{}"\<close>.\<close>

fun elem0 :: "jsval \<Rightarrow> jsval" where
  "elem0 (JArr (x # xs)) = x"
| "elem0 (JStr (c # cs)) = JStr [c]"
| "elem0 (JObj kvs) = get_opt (JObj kvs) ''0''"
| "elem0 v = JUndefined"

definition nullish :: "jsval \<Rightarrow> jsval \<Rightarrow> jsval" where
  "nullish a b = (if a = JUndefined \<or> a = JNull then b else a)"

definition message_content :: "jsval \<Rightarrow> jsval" where
  "message_content data =
     nullish (get_opt (get_opt (elem0 (get_opt data ''choices'')) ''message'') ''content'') (JStr ''{}'')"

section \<open>Extraction stage (enhanced pipeline)\<close>

text \<open>
  \<open>contentText.match(/\{[\s\S]*\}/)\<close>: the match starts at the first \<open>{\<close> and, the star
  being greedy, ends at the last \<open>}\<close> after it; there is none when no \<open>}\<close> follows the
  first \<open>{\<close>.
\<close>

definition brace_match :: "string \<Rightarrow> string option" where
  "brace_match s =
     (case dropWhile (\<lambda>c. c \<noteq> CHR ''{'') s of
        [] \<Rightarrow> None
      | b # r \<Rightarrow>
          if CHR ''}'' \<in> set r
          then Some (b # rev (dropWhile (\<lambda>c. c \<noteq> CHR ''}'') (rev r)))
          else None)"

text \<open>
  \<^verbatim>\<open>
  const data = await response.json();
  const contentText = data?.choices?.[0]?.message?.content ?? "{}";
  try {
    const parsed = JSON.parse(contentText);
    return { extracted: parsed.extracted || {}, summary: parsed.summary || "No summary available" };
  } catch {
    // Fallback JSON parsing
    const match = contentText.match(/\{[\s\S]*\}/);
    if (match) {
      try {
        const parsed = JSON.parse(match[0]);
        return { extracted: parsed.extracted || parsed, // Handle both formats
                 summary: parsed.summary || "Document processed successfully" };
      } catch {
        return { extracted: {}, summary: "Failed to parse analysis results" };
      }
    }
    return { extracted: {}, summary: "No analysis results available" };
  }
  \<close>
  A \<open>try\<close> block is an option, \<open>None\<close> when it throws: the SyntaxError of \<open>JSON.parse\<close> or
  the TypeError of a property read on \<open>null\<close>. \<open>contentText\<close> is whatever the service put
  in the field; when it is not a string, \<open>JSON.parse\<close> reads its text, and
  \<open>contentText.match\<close> throws a TypeError that leaves the function.
\<close>

record analysis =
  an_extracted :: jsval
  an_summary :: jsval

definition direct_parse :: "json_parser \<Rightarrow> string \<Rightarrow> analysis option" where
  "direct_parse json_parse text =
     (case json_parse text of
        None \<Rightarrow> None
      | Some parsed \<Rightarrow>
          (case get_prop parsed ''extracted'' of
             None \<Rightarrow> None
           | Some ex \<Rightarrow>
               Some \<lparr>an_extracted = js_or ex (JObj []),
                     an_summary = js_or (get_opt parsed ''summary'') (JStr ''No summary available'')\<rparr>))"

definition salvage_parse :: "json_parser \<Rightarrow> string \<Rightarrow> analysis option" where
  "salvage_parse json_parse m =
     (case json_parse m of
        None \<Rightarrow> None
      | Some parsed \<Rightarrow>
          (case get_prop parsed ''extracted'' of
             None \<Rightarrow> None
           | Some ex \<Rightarrow>
               Some \<lparr>an_extracted = js_or ex parsed,
                     an_summary = js_or (get_opt parsed ''summary'') (JStr ''Document processed successfully'')\<rparr>))"

definition parse_fallback :: "json_parser \<Rightarrow> string \<Rightarrow> analysis" where
  "parse_fallback json_parse s =
     (case brace_match s of
        Some m \<Rightarrow>
          (case salvage_parse json_parse m of
             Some r \<Rightarrow> r
           | None \<Rightarrow> \<lparr>an_extracted = JObj [], an_summary = JStr ''Failed to parse analysis results''\<rparr>)
      | None \<Rightarrow> \<lparr>an_extracted = JObj [], an_summary = JStr ''No analysis results available''\<rparr>)"

definition parse_analysis :: "json_parser \<Rightarrow> jsval \<Rightarrow> js_error + analysis" where
  "parse_analysis json_parse contentText =
     (case direct_parse json_parse (js_String contentText) of
        Some r \<Rightarrow> Inr r
      | None \<Rightarrow>
          (case contentText of
             JStr s \<Rightarrow> Inr (parse_fallback json_parse s)
           | _ \<Rightarrow> Inl (Js_Error ''TypeError'' ''contentText.match is not a function'')))"

text \<open>
  \<^verbatim>\<open>
  const response = await fetch("https://api.openai.com/v1/chat/completions", {...});
  if (!response.ok) {
    throw new Error(`AI Analysis failed: ${response.statusText}`);
  }
  \<close>
  The layout result shapes the request only; the reply is the environment's.
\<close>

definition performAIAnalysis :: "json_parser \<Rightarrow> jsval service_reply \<Rightarrow> js_error + analysis" where
  "performAIAnalysis json_parse reply =
     (case reply of
        Call_Threw e \<Rightarrow> Inl e
      | Call_Not_Ok statusText bodyText \<Rightarrow> Inl (Js_Error ''Error'' (''AI Analysis failed: '' @ statusText))
      | Call_Malformed \<Rightarrow> Inl (Js_Error ''SyntaxError'' ''Unexpected token'')
      | Call_Ok data \<Rightarrow> parse_analysis json_parse (message_content data))"

subsection \<open>The parsing policy in the words of the specification\<close>





section \<open>Embedding and storage stage (enhanced pipeline)\<close>

text \<open>
  \<^verbatim>\<open>
  async function generateEmbeddingsForChunks(chunks: string[]): Promise<number[][]> {
    try {
      const response = await fetch("https://api.openai.com/v1/embeddings", {...});
      if (!response.ok) {
        throw new Error(`Embedding API error: ${response.statusText}`);
      }
      const data = await response.json();
      return data.data.map((item: any) => item.embedding);
    } catch (error) {
      console.error("Embeddings error:", error);
      return [];
    }
  }
  \<close>
  The chunks shape the request; the reply is the environment's.
\<close>

definition generateEmbeddingsForChunks :: "real list list service_reply \<Rightarrow> real list list" where
  "generateEmbeddingsForChunks reply =
     (case reply of
        Call_Threw e \<Rightarrow> []
      | Call_Not_Ok statusText bodyText \<Rightarrow> []
      | Call_Malformed \<Rightarrow> []
      | Call_Ok vectors \<Rightarrow> vectors)"

text \<open>
  The environment of one run of the pipeline: the reply of the model, the reply of the
  embedding service, and of the vector index the status of the collection check, the
  \<open>ok\<close> of the collection creation and the \<open>ok\<close> of the upsert (\<open>None\<close> when the \<open>fetch\<close>
  throws).
\<close>

record pipeline_env =
  ai_reply :: "jsval service_reply"
  embedding_reply :: "real list list service_reply"
  collection_check :: "nat option"
  collection_create :: "bool option"
  points_upsert :: "bool option"

definition status_ok :: "nat \<Rightarrow> bool" where
  "status_ok st \<longleftrightarrow> 200 \<le> st \<and> st \<le> 299"

text \<open>
  \<^verbatim>\<open>
  async function ensureQdrantCollection(): Promise<boolean> {
    try {
      const checkResponse = await fetch(`${QDRANT_URL}/collections/documents`);
      if (checkResponse.status === 404) {
        const createResponse = await fetch(`${QDRANT_URL}/collections/documents`, {method: 'PUT', ...});
        return createResponse.ok;
      }
      return checkResponse.ok;
    } catch (error) {
      return false;
    }
  }
  \<close>
\<close>

definition ensureQdrantCollection :: "pipeline_env \<Rightarrow> bool" where
  "ensureQdrantCollection env =
     (case collection_check env of
        None \<Rightarrow> False
      | Some st \<Rightarrow>
          if st = 404 then (case collection_create env of None \<Rightarrow> False | Some created \<Rightarrow> created)
          else status_ok st)"

text \<open>
  \<^verbatim>\<open>
  async function storeChunksInVectorDB(chunks: string[], embeddings: number[][]): Promise<boolean> {
    try {
      const collectionReady = await ensureQdrantCollection();
      if (!collectionReady) {
        return false;
      }
      const points = chunks.map((chunk, index) => ({ id: crypto.randomUUID(),
        vector: embeddings[index] || [], payload: {...} }));
      const response = await fetch(`${QDRANT_URL}/collections/documents/points`, {method: 'PUT', ...});
      return response.ok;
    } catch (error) {
      return false;
    }
  }
  \<close>
  The chunks and the embeddings shape the points sent; what is returned is the index's
  answer.
\<close>

definition storeChunksInVectorDB :: "pipeline_env \<Rightarrow> string list \<Rightarrow> real list list \<Rightarrow> bool" where
  "storeChunksInVectorDB env chunks vectors =
     (if \<not> ensureQdrantCollection env then False
      else (case points_upsert env of None \<Rightarrow> False | Some stored \<Rightarrow> stored))"

section \<open>Orchestrator of the enhanced pipeline\<close>

text \<open>
  A step of the response. Its display name and description are left out (they are
  constant texts).
\<close>

record step =
  step_id :: string
  step_status :: string
  step_duration :: "string option"

definition initial_steps :: "step list" where
  "initial_steps =
     [\<lparr>step_id = ''ocr'', step_status = ''processing'', step_duration = None\<rparr>,
      \<lparr>step_id = ''layout'', step_status = ''pending'', step_duration = None\<rparr>,
      \<lparr>step_id = ''ai'', step_status = ''pending'', step_duration = None\<rparr>,
      \<lparr>step_id = ''vector'', step_status = ''pending'', step_duration = None\<rparr>,
      \<lparr>step_id = ''validation'', step_status = ''pending'', step_duration = None\<rparr>]"

text \<open>
  \<open>result.steps[i] = { ...result.steps[i], status }\<close> and
  \<open>result.steps[i] = { ...result.steps[i], status, duration }\<close>, for an index of the list.
\<close>

definition set_status :: "nat \<Rightarrow> string \<Rightarrow> step list \<Rightarrow> step list" where
  "set_status i st xs = xs[i := (xs ! i)\<lparr>step_status := st\<rparr>]"

definition set_done :: "nat \<Rightarrow> string \<Rightarrow> string option \<Rightarrow> step list \<Rightarrow> step list" where
  "set_done i st d xs = xs[i := (xs ! i)\<lparr>step_status := st, step_duration := d\<rparr>]"

record processing_response =
  pr_steps :: "step list"
  pr_ocrResult :: ocr_result
  pr_layoutResult :: layout_result
  pr_extracted :: jsval
  pr_summary :: jsval
  pr_embeddings :: "real list"
  pr_validation :: validation


record 'b response =
  resp_status :: nat
  resp_body :: 'b



text \<open>
  The body of the \<open>try\<close> block after the content check; \<open>Inl\<close> is the exception that the
  \<open>catch\<close> of the handler receives.
  \<^verbatim>\<open>
  const ocrResult = await performOCR(content);
  result.steps[0] = { ...result.steps[0], status: 'completed', duration: '1.2s' };
  result.steps[1] = { ...result.steps[1], status: 'processing' };
  const layoutResult = await parseLayout(ocrResult);
  result.steps[1] = { ...result.steps[1], status: 'completed', duration: '0.9s' };
  result.steps[2] = { ...result.steps[2], status: 'processing' };
  const { extracted, summary } = await performAIAnalysis(layoutResult);
  result.steps[2] = { ...result.steps[2], status: 'completed', duration: '2.4s' };
  result.steps[3] = { ...result.steps[3], status: 'processing' };
  const chunks = chunkText(layoutResult.text);
  const embeddings = await generateEmbeddingsForChunks(chunks);
  const vectorStored = await storeChunksInVectorDB(chunks, embeddings);
  result.embeddings = embeddings[0]?.slice(0, 10) || [];
  result.steps[3] = { ...result.steps[3], status: vectorStored ? 'completed' : 'error',
                      duration: vectorStored ? '1.8s' : undefined };
  result.steps[4] = { ...result.steps[4], status: 'processing' };
  const validation = validateDocument(extracted);
  result.steps[4] = { ...result.steps[4], status: 'completed', duration: '0.4s' };
  return new Response(JSON.stringify(result), {headers: ...});
  \<close>
  A content that is truthy and not a string makes \<open>content.split\<close> in \<open>performOCR\<close> throw.
\<close>

definition run_pipeline :: "json_parser \<Rightarrow> pipeline_env \<Rightarrow> jsval \<Rightarrow> js_error + processing_response" where
  "run_pipeline json_parse env content =
     (case content of
        JStr s \<Rightarrow>
          (let ocr = performOCR s;
               steps1 = set_done 0 ''completed'' (Some ''1.2s'') initial_steps;
               steps2 = set_status 1 ''processing'' steps1;
               layout = parseLayout ocr;
               steps3 = set_done 1 ''completed'' (Some ''0.9s'') steps2;
               steps4 = set_status 2 ''processing'' steps3
           in case performAIAnalysis json_parse (ai_reply env) of
                Inl e \<Rightarrow> Inl e
              | Inr an \<Rightarrow>
                  (let steps5 = set_done 2 ''completed'' (Some ''2.4s'') steps4;
                       steps6 = set_status 3 ''processing'' steps5;
                       chunks = chunkText (layout_text layout) 500;
                       vectors = generateEmbeddingsForChunks (embedding_reply env);
                       vectorStored = storeChunksInVectorDB env chunks vectors;
                       preview = (case vectors of [] \<Rightarrow> [] | v # vs \<Rightarrow> take 10 v);
                       steps7 = set_done 3 (if vectorStored then ''completed'' else ''error'')
                                  (if vectorStored then Some ''1.8s'' else None) steps6;
                       steps8 = set_status 4 ''processing'' steps7;
                       validation = validateDocument (props (an_extracted an));
                       steps9 = set_done 4 ''completed'' (Some ''0.4s'') steps8
                   in Inr \<lparr>pr_steps = steps9, pr_ocrResult = ocr, pr_layoutResult = layout,
                            pr_extracted = an_extracted an, pr_summary = an_summary an,
                            pr_embeddings = preview, pr_validation = validation\<rparr>))
      | _ \<Rightarrow> Inl (Js_Error ''TypeError'' ''content.split is not a function''))"



subsection \<open>Example runs\<close>




section \<open>The entry point analyze-docs\<close>








section \<open>The entry point process-documents\<close>

subsection \<open>Request and job records\<close>

text \<open>
  \<^verbatim>\<open>
  interface ProcessingRequest {
    document_content?: string;
    file_path?: string;
    user_id?: string;
    job_id?: string;
  }
  \<close>
  An optional string is truthy when it is present and not empty.
\<close>

record processing_request =
  document_content :: "string option"
  file_path :: "string option"
  user_id :: "string option"
  job_id :: "string option"

definition truthy_opt :: "string option \<Rightarrow> bool" where
  "truthy_opt v = (case v of None \<Rightarrow> False | Some s \<Rightarrow> s \<noteq> [])"

text \<open>The identifier under \<open>if (job_id)\<close>: the job id when it is truthy.\<close>

definition job_key :: "string option \<Rightarrow> string option" where
  "job_key v = (case v of None \<Rightarrow> None | Some s \<Rightarrow> if s = [] then None else Some s)"

text \<open>
  The body of a request: none, a text that is not JSON, or a JSON object read as a
  \<open>ProcessingRequest\<close>. A body is a stream that can be read once: \<open>req.json()\<close> reads it
  and leaves it used, also when the text is not JSON, and \<open>req.clone()\<close> throws a
  TypeError on a request whose body has been used. The flag \<open>used\<close> is passed along.
\<close>

datatype request_payload = Null_Body | Invalid_Json | Json_Body processing_request

record http_request =
  http_method :: string
  payload :: request_payload

definition read_json :: "http_request \<Rightarrow> bool \<Rightarrow> (js_error + processing_request) \<times> bool" where
  "read_json req used =
     (case payload req of
        Null_Body \<Rightarrow> (Inl (Js_Error ''SyntaxError'' ''Unexpected end of JSON input''), used)
      | Invalid_Json \<Rightarrow>
          if used then (Inl (Js_Error ''TypeError'' ''Body already consumed''), True)
          else (Inl (Js_Error ''SyntaxError'' ''Unexpected token''), True)
      | Json_Body b \<Rightarrow>
          if used then (Inl (Js_Error ''TypeError'' ''Body already consumed''), True)
          else (Inr b, True))"

definition clone_request :: "http_request \<Rightarrow> bool \<Rightarrow> js_error + http_request" where
  "clone_request req used =
     (if payload req \<noteq> Null_Body \<and> used then Inl (Js_Error ''TypeError'' ''Body is unusable'')
      else Inr req)"

text \<open>
  A row of the table \<open>processing_jobs\<close>, and the rows inserted into
  \<open>extracted_entities\<close>. The database is the two tables and, as an observation for the
  properties below, the list of the progress values written to job rows, in the order
  they were written. An update of a row that does not exist changes nothing.
\<close>

record job =
  job_status :: string
  job_progress :: nat
  job_result :: "jsval option"
  job_error_message :: "string option"
  job_processing_time_ms :: "nat option"
  job_completed_at :: "string option"
  job_document_id :: "string option"

record entity_row =
  ent_document_id :: string
  ent_type :: jsval
  ent_value :: jsval
  ent_confidence :: jsval

record database =
  jobs :: "string \<rightharpoonup> job"
  entity_rows :: "entity_row list"
  progress_writes :: "(string \<times> nat) list"

definition update_job :: "string \<Rightarrow> (job \<Rightarrow> job) \<Rightarrow> database \<Rightarrow> database" where
  "update_job jid f db =
     (case jobs db jid of
        None \<Rightarrow> db
      | Some j \<Rightarrow> db\<lparr>jobs := (jobs db)(jid \<mapsto> f j)\<rparr>)"

definition write_progress :: "string \<Rightarrow> nat \<Rightarrow> (job \<Rightarrow> job) \<Rightarrow> database \<Rightarrow> database" where
  "write_progress jid p f db =
     (case jobs db jid of
        None \<Rightarrow> db
      | Some j \<Rightarrow> db\<lparr>jobs := (jobs db)(jid \<mapsto> (f j)\<lparr>job_progress := p\<rparr>),
                    progress_writes := progress_writes db @ [(jid, p)]\<rparr>)"

text \<open>
  \<^verbatim>\<open>
  if (job_id) {
    await supabase.from('processing_jobs').update({ progress: 30 }).eq('id', job_id);
  }
  \<close>
\<close>

definition progress_update :: "string option \<Rightarrow> nat \<Rightarrow> database \<Rightarrow> database" where
  "progress_update jid p db =
     (case job_key jid of None \<Rightarrow> db | Some k \<Rightarrow> write_progress k p (\<lambda>j. j) db)"

subsection \<open>The stages of this variant\<close>

text \<open>
  \<^verbatim>\<open>
  async function performOCR(content: string): Promise<OCRResult> {
    return { text: content, confidence: 0.95,
      bounding_boxes: [{ text: content.substring(0, 50), bbox: [10, 10, 200, 30], confidence: 0.95 }] };
  }
  async function parseLayout(ocrResult: OCRResult): Promise<LayoutResult> {
    return { tables: [],
      text_blocks: [{ text: ocrResult.text, bbox: [0, 0, 800, 600], type: "paragraph" }],
      key_value_pairs: [{ key: "Document Type", value: "Invoice", confidence: 0.9 }] };
  }
  \<close>
  The constant confidences and boxes are left out.
\<close>

record pd_ocr_result =
  pd_text :: string
  pd_bounding_boxes :: "string list"

record pd_layout_result =
  pd_tables :: "string list list"
  pd_text_blocks :: "string list"
  pd_key_value_pairs :: "(string \<times> string) list"

definition performOCR_pd :: "string \<Rightarrow> pd_ocr_result" where
  "performOCR_pd content = \<lparr>pd_text = content, pd_bounding_boxes = [take 50 content]\<rparr>"

definition parseLayout_pd :: "pd_ocr_result \<Rightarrow> pd_layout_result" where
  "parseLayout_pd ocr =
     \<lparr>pd_tables = [], pd_text_blocks = [pd_text ocr],
      pd_key_value_pairs = [(''Document Type'', ''Invoice'')]\<rparr>"

text \<open>
  The environment of one run: the replies of the model, of the embedding service and of
  the vector index, the clock at the start and at the end, the date and the time stamp
  as texts, and the identifier \<open>crypto.randomUUID()\<close> gives.
\<close>

record process_env =
  extraction_reply :: "jsval service_reply"
  embeddings_reply :: "real list list service_reply"
  qdrant_reply :: "unit service_reply"
  now_start :: nat
  now_end :: nat
  today :: string
  timestamp :: string
  new_uuid :: string

text \<open>
  \<^verbatim>\<open>
  try {
    const response = await fetch('https://api.openai.com/v1/chat/completions', {...});
    if (!response.ok) {
      throw new Error(`OpenAI API error: ${response.statusText}`);
    }
    const data = await response.json();
    const extractedText = data.choices[0].message.content;
    try {
      return JSON.parse(extractedText);
    } catch {
      return { supplier: "Unknown Supplier", buyer: "Unknown Buyer", invoice_number: "N/A",
        invoice_date: new Date().toISOString().split('T')[0], total_amount: "0.00",
        findings: [{ category: "Document Processing", description: "Document processed successfully",
                     severity: "info" }],
        entities: [{ type: "document_type", value: "inspection_certificate", confidence: 0.9 }] };
    }
  } catch (error) {
    throw error;
  }
  \<close>
\<close>

definition strict_content :: "jsval \<Rightarrow> jsval option" where
  "strict_content data =
     Option.bind (get_prop data ''choices'') (\<lambda>choices.
       if choices = JUndefined \<or> choices = JNull then None
       else Option.bind (get_prop (elem0 choices) ''message'') (\<lambda>message.
              get_prop message ''content''))"

definition fallback_extraction :: "string \<Rightarrow> jsval" where
  "fallback_extraction date =
     JObj [(''supplier'', JStr ''Unknown Supplier''), (''buyer'', JStr ''Unknown Buyer''),
           (''invoice_number'', JStr ''N/A''), (''invoice_date'', JStr date),
           (''total_amount'', JStr ''0.00''),
           (''findings'', JArr [JObj [(''category'', JStr ''Document Processing''),
                                      (''description'', JStr ''Document processed successfully''),
                                      (''severity'', JStr ''info'')]]),
           (''entities'', JArr [JObj [(''type'', JStr ''document_type''),
                                      (''value'', JStr ''inspection_certificate''),
                                      (''confidence'', JNum True ''0.9'')]])]"

definition extractStructuredData :: "json_parser \<Rightarrow> process_env \<Rightarrow> js_error + jsval" where
  "extractStructuredData json_parse env =
     (case extraction_reply env of
        Call_Threw e \<Rightarrow> Inl e
      | Call_Not_Ok statusText bodyText \<Rightarrow> Inl (Js_Error ''Error'' (''OpenAI API error: '' @ statusText))
      | Call_Malformed \<Rightarrow> Inl (Js_Error ''SyntaxError'' ''Unexpected token'')
      | Call_Ok data \<Rightarrow>
          (case strict_content data of
             None \<Rightarrow> Inl (Js_Error ''TypeError'' ''Cannot read properties of undefined'')
           | Some extractedText \<Rightarrow>
               (case json_parse (js_String extractedText) of
                  Some v \<Rightarrow> Inr v
                | None \<Rightarrow> Inr (fallback_extraction (today env)))))"

text \<open>
  \<^verbatim>\<open>
  function chunkText(text: string, maxChunkSize: number = 500): string[] {
    const words = text.split(' ');
    const chunks: string[] = [];
    let currentChunk = '';
    for (const word of words) {
      if (currentChunk.length + word.length + 1 <= maxChunkSize) {
        currentChunk += (currentChunk ? ' ' : '') + word;
      } else {
        if (currentChunk) chunks.push(currentChunk);
        currentChunk = word;
      }
    }
    if (currentChunk) chunks.push(currentChunk);
    return chunks;
  }
  \<close>
\<close>

definition word_step :: "nat \<Rightarrow> string list \<times> string \<Rightarrow> string \<Rightarrow> string list \<times> string" where
  "word_step maxChunkSize st word =
     (case st of (chunks, currentChunk) \<Rightarrow>
        if length currentChunk + length word + 1 \<le> maxChunkSize
        then (chunks, currentChunk @ (if currentChunk \<noteq> [] then '' '' else []) @ word)
        else (if currentChunk \<noteq> [] then chunks @ [currentChunk] else chunks, word))"

definition chunkText_pd :: "string \<Rightarrow> nat \<Rightarrow> string list" where
  "chunkText_pd text maxChunkSize =
     (case foldl (word_step maxChunkSize) ([], []) (split_char CHR '' '' text) of
        (chunks, currentChunk) \<Rightarrow> if currentChunk \<noteq> [] then chunks @ [currentChunk] else chunks)"

text \<open>
  \<open>generateEmbeddings\<close> and \<open>storeInQdrant\<close> of this variant throw what they catch.
\<close>

definition generateEmbeddings :: "real list list service_reply \<Rightarrow> js_error + real list list" where
  "generateEmbeddings reply =
     (case reply of
        Call_Threw e \<Rightarrow> Inl e
      | Call_Not_Ok statusText bodyText \<Rightarrow> Inl (Js_Error ''Error'' (''OpenAI API error: '' @ statusText))
      | Call_Malformed \<Rightarrow> Inl (Js_Error ''TypeError'' ''Cannot read properties of undefined'')
      | Call_Ok vectors \<Rightarrow> Inr vectors)"

definition storeInQdrant :: "unit service_reply \<Rightarrow> js_error + unit" where
  "storeInQdrant reply =
     (case reply of
        Call_Threw e \<Rightarrow> Inl e
      | Call_Not_Ok statusText bodyText \<Rightarrow> Inl (Js_Error ''Error'' (''Qdrant API error: '' @ statusText))
      | Call_Malformed \<Rightarrow> Inr ()
      | Call_Ok u \<Rightarrow> Inr ())"

text \<open>
  \<^verbatim>\<open>
  if (extractedData.entities && jobRecord?.document_id) {
    for (const entity of extractedData.entities) {
      await supabase.from('extracted_entities').insert({
          document_id: jobRecord.document_id, entity_type: entity.type,
          entity_value: entity.value, confidence: entity.confidence });
    }
  }
  \<close>
  An array and a string can be iterated; a property read on \<open>null\<close> or \<open>undefined\<close>
  throws. The rows inserted before an exception stay.
\<close>

fun iter_values :: "jsval \<Rightarrow> jsval list option" where
  "iter_values (JArr xs) = Some xs"
| "iter_values (JStr s) = Some (map (\<lambda>c. JStr [c]) s)"
| "iter_values v = None"

fun insert_entities :: "string \<Rightarrow> jsval list \<Rightarrow> database \<Rightarrow> js_error option \<times> database" where
  "insert_entities doc [] db = (None, db)"
| "insert_entities doc (entity # es) db =
     (case get_prop entity ''type'' of
        None \<Rightarrow> (Some (Js_Error ''TypeError'' ''Cannot read properties of null''), db)
      | Some t \<Rightarrow>
          insert_entities doc es
            (db\<lparr>entity_rows := entity_rows db @
                 [\<lparr>ent_document_id = doc, ent_type = t, ent_value = get_opt entity ''value'',
                   ent_confidence = get_opt entity ''confidence''\<rparr>]\<rparr>))"

definition store_entities :: "jsval \<Rightarrow> job option \<Rightarrow> database \<Rightarrow> js_error option \<times> database" where
  "store_entities extractedData jobRecord db =
     (case get_prop extractedData ''entities'' of
        None \<Rightarrow> (Some (Js_Error ''TypeError'' ''Cannot read properties of null''), db)
      | Some ents \<Rightarrow>
          (case jobRecord of
             None \<Rightarrow> (None, db)
           | Some j \<Rightarrow>
               (case job_key (job_document_id j) of
                  None \<Rightarrow> (None, db)
                | Some doc \<Rightarrow>
                    if truthy ents
                    then (case iter_values ents of
                            None \<Rightarrow> (Some (Js_Error ''TypeError'' ''extractedData.entities is not iterable''), db)
                          | Some es \<Rightarrow> insert_entities doc es db)
                    else (None, db))))"

subsection \<open>The handler\<close>

record success_payload =
  sp_processing_time_ms :: nat
  sp_extracted_data :: jsval
  sp_text_length :: nat
  sp_bounding_boxes_count :: nat
  sp_tables_count :: nat
  sp_text_blocks_count :: nat
  sp_key_value_pairs_count :: nat
  sp_chunks_stored :: nat
  sp_embeddings_dimension :: nat
  sp_job_id :: string

datatype pd_body =
    Pd_No_Body
  | Pd_Error string
  | Pd_Failure string string
  | Pd_Success success_payload

text \<open>What a call of the handler gives its caller: a response, or an exception that
  leaves the handler.\<close>

datatype 'b outcome = Responded "'b response" | Escaped js_error

text \<open>
  The \<open>try\<close> block after the request was read and checked. \<open>Inl\<close> is the exception
  thrown to the \<open>catch\<close> of the handler; the database is as the block left it.
  \<^verbatim>\<open>
  let jobRecord;
  if (job_id) {
    const { data: existingJob } = await supabase.from('processing_jobs').select('*').eq('id', job_id).single();
    if (existingJob) {
      await supabase.from('processing_jobs').update({ status: 'running', progress: 10 }).eq('id', job_id);
      jobRecord = existingJob;
    }
  }
  const ocrResult = await performOCR(document_content || 'File content from storage');
  if (job_id) { ... update({ progress: 30 }) ... }
  const layoutResult = await parseLayout(ocrResult);
  if (job_id) { ... update({ progress: 50 }) ... }
  const extractedData = await extractStructuredData(layoutResult);
  if (job_id) { ... update({ progress: 70 }) ... }
  const textChunks = chunkText(ocrResult.text);
  const embeddings = await generateEmbeddings(textChunks);
  const documentId = job_id || crypto.randomUUID();
  await storeInQdrant(embeddings, textChunks, documentId);
  if (job_id) { ... update({ progress: 90 }) ... }
  ... (the entities) ...
  const processingTime = Date.now() - startTime;
  if (job_id) {
    await supabase.from('processing_jobs').update({ status: 'completed', progress: 100,
        result: extractedData, processing_time_ms: processingTime,
        completed_at: new Date().toISOString() }).eq('id', job_id);
  }
  return new Response(JSON.stringify(response), { headers: ..., status: 200 });
  \<close>
\<close>

definition finish_run ::
  "process_env \<Rightarrow> string option \<Rightarrow> pd_ocr_result \<Rightarrow> pd_layout_result \<Rightarrow> jsval \<Rightarrow>
     string list \<Rightarrow> real list list \<Rightarrow> database \<Rightarrow> pd_body response \<times> database" where
  "finish_run env jid ocr layout extractedData textChunks vectors db6 =
     (let processingTime = now_end env - now_start env;
          documentId = (case job_key jid of None \<Rightarrow> new_uuid env | Some k \<Rightarrow> k);
          db7 = (case job_key jid of
                   None \<Rightarrow> db6
                 | Some k \<Rightarrow>
                     write_progress k 100
                       (\<lambda>j. j\<lparr>job_status := ''completed'', job_result := Some extractedData,
                                job_processing_time_ms := Some processingTime,
                                job_completed_at := Some (timestamp env)\<rparr>) db6)
      in (\<lparr>resp_status = 200,
           resp_body = Pd_Success
             \<lparr>sp_processing_time_ms = processingTime,
              sp_extracted_data = extractedData,
              sp_text_length = length (pd_text ocr),
              sp_bounding_boxes_count = length (pd_bounding_boxes ocr),
              sp_tables_count = length (pd_tables layout),
              sp_text_blocks_count = length (pd_text_blocks layout),
              sp_key_value_pairs_count = length (pd_key_value_pairs layout),
              sp_chunks_stored = length textChunks,
              sp_embeddings_dimension = (case vectors of [] \<Rightarrow> 0 | v # vs \<Rightarrow> length v),
              sp_job_id = documentId\<rparr>\<rparr>, db7))"

definition run_job ::
  "json_parser \<Rightarrow> process_env \<Rightarrow> processing_request \<Rightarrow> database \<Rightarrow>
     (js_error + pd_body response) \<times> database" where
  "run_job json_parse env rb db =
     (let jid = job_id rb;
          jobRecord = (case job_key jid of None \<Rightarrow> None | Some k \<Rightarrow> jobs db k);
          db1 = (case job_key jid of
                   None \<Rightarrow> db
                 | Some k \<Rightarrow> write_progress k 10 (\<lambda>j. j\<lparr>job_status := ''running''\<rparr>) db);
          ocr = performOCR_pd (case document_content rb of
                                 None \<Rightarrow> ''File content from storage''
                               | Some c \<Rightarrow> if c = [] then ''File content from storage'' else c);
          db2 = progress_update jid 30 db1;
          layout = parseLayout_pd ocr;
          db3 = progress_update jid 50 db2
      in case extractStructuredData json_parse env of
           Inl e \<Rightarrow> (Inl e, db3)
         | Inr extractedData \<Rightarrow>
             (let db4 = progress_update jid 70 db3;
                  textChunks = chunkText_pd (pd_text ocr) 500
              in case generateEmbeddings (embeddings_reply env) of
                   Inl e \<Rightarrow> (Inl e, db4)
                 | Inr vectors \<Rightarrow>
                     (case storeInQdrant (qdrant_reply env) of
                        Inl e \<Rightarrow> (Inl e, db4)
                      | Inr u \<Rightarrow>
                          (case store_entities extractedData jobRecord (progress_update jid 90 db4) of
                             (Some e, db6) \<Rightarrow> (Inl e, db6)
                           | (None, db6) \<Rightarrow>
                               (case finish_run env jid ocr layout extractedData textChunks vectors db6 of
                                  (resp, db7) \<Rightarrow> (Inr resp, db7))))))"

text \<open>
  \<^verbatim>\<open>
  try {
    const requestBody: ProcessingRequest = await req.json();
    const { document_content, file_path, user_id, job_id } = requestBody;
    if (!document_content && !file_path) {
      return new Response(JSON.stringify({ error: 'Either document_content or file_path is required' }),
                          { status: 400, ... });
    }
    ...
  \<close>
  The result carries the flag of the body after the block.
\<close>

definition try_block ::
  "json_parser \<Rightarrow> process_env \<Rightarrow> http_request \<Rightarrow> database \<Rightarrow>
     (js_error + pd_body response) \<times> database \<times> bool" where
  "try_block json_parse env req db =
     (case read_json req False of
        (Inl e, used) \<Rightarrow> (Inl e, db, used)
      | (Inr rb, used) \<Rightarrow>
          if \<not> truthy_opt (document_content rb) \<and> \<not> truthy_opt (file_path rb)
          then (Inr \<lparr>resp_status = 400,
                     resp_body = Pd_Error ''Either document_content or file_path is required''\<rparr>, db, used)
          else (case run_job json_parse env rb db of (r, db') \<Rightarrow> (r, db', used)))"

text \<open>
  \<^verbatim>\<open>
  } catch (error) {
    console.error('Document processing failed:', error);
    // Update job status if job_id exists
    const requestBody = await req.clone().json().catch(() => ({}));
    if (requestBody.job_id) {
      await supabase.from('processing_jobs')
        .update({ status: 'failed', error_message: error.message })
        .eq('id', requestBody.job_id);
    }
    return new Response(JSON.stringify({ success: false, error: error.message,
        timestamp: new Date().toISOString() }), { status: 500, ... });
  }
  \<close>
  \<open>req.clone()\<close> is evaluated before \<open>.json()\<close> and its \<open>.catch\<close>: when it throws, the
  exception leaves the \<open>catch\<close> block and the handler.
\<close>

definition catch_block ::
  "process_env \<Rightarrow> js_error \<Rightarrow> http_request \<Rightarrow> bool \<Rightarrow> database \<Rightarrow> pd_body outcome \<times> database" where
  "catch_block env error req used db =
     (case clone_request req used of
        Inl e \<Rightarrow> (Escaped e, db)
      | Inr clone \<Rightarrow>
          (let requestBody = (case read_json clone False of (Inr rb, u) \<Rightarrow> Some rb | (Inl e, u) \<Rightarrow> None);
               db' = (case requestBody of
                        None \<Rightarrow> db
                      | Some rb \<Rightarrow>
                          (case job_key (job_id rb) of
                             None \<Rightarrow> db
                           | Some k \<Rightarrow>
                               update_job k
                                 (\<lambda>j. j\<lparr>job_status := ''failed'',
                                          job_error_message := Some (error_message error)\<rparr>) db))
           in (Responded \<lparr>resp_status = 500,
                           resp_body = Pd_Failure (error_message error) (timestamp env)\<rparr>, db')))"

text \<open>
  \<^verbatim>\<open>
  serve(async (req) => {
    if (req.method === 'OPTIONS') {
      return new Response(null, { headers: corsHeaders });
    }
    if (req.method !== 'POST') {
      return new Response(JSON.stringify({ error: 'Method not allowed' }), { status: 405, ... });
    }
    try { ... } catch (error) { ... }
  });
  \<close>
\<close>

definition process_documents ::
  "json_parser \<Rightarrow> process_env \<Rightarrow> http_request \<Rightarrow> database \<Rightarrow> pd_body outcome \<times> database" where
  "process_documents json_parse env req db =
     (if http_method req = ''OPTIONS'' then (Responded \<lparr>resp_status = 200, resp_body = Pd_No_Body\<rparr>, db)
      else if http_method req \<noteq> ''POST''
      then (Responded \<lparr>resp_status = 405, resp_body = Pd_Error ''Method not allowed''\<rparr>, db)
      else (case try_block json_parse env req db of
              (Inr resp, db', used) \<Rightarrow> (Responded resp, db')
            | (Inl error, db', used) \<Rightarrow> catch_block env error req used db'))"

subsection \<open>An example run\<close>

text \<open>
  A job \<open>job-1\<close> is pending; the request names it; the model answers 401, so
  \<open>extractStructuredData\<close> throws after the progress 50 was written.
\<close>

definition pending_job :: job where
  "pending_job =
     \<lparr>job_status = ''pending'', job_progress = 0, job_result = None, job_error_message = None,
      job_processing_time_ms = None, job_completed_at = None, job_document_id = None\<rparr>"

definition db_one_job :: database where
  "db_one_job = \<lparr>jobs = [''job-1'' \<mapsto> pending_job], entity_rows = [], progress_writes = []\<rparr>"

definition request_job_1 :: http_request where
  "request_job_1 =
     \<lparr>http_method = ''POST'',
      payload = Json_Body \<lparr>document_content = Some ''Invoice 42'', file_path = None,
                          user_id = None, job_id = Some ''job-1''\<rparr>\<rparr>"

definition env_model_unauthorized :: process_env where
  "env_model_unauthorized =
     \<lparr>extraction_reply = Call_Not_Ok ''Unauthorized'' [], embeddings_reply = Call_Ok [],
      qdrant_reply = Call_Ok (), now_start = 0, now_end = 1800, today = ''2025-09-09'',
      timestamp = ''2025-09-09T09:16:16.000Z'', new_uuid = ''uuid-1''\<rparr>"

definition env_all_ok :: process_env where
  "env_all_ok =
     \<lparr>extraction_reply = Call_Ok (JObj [(''choices'', JArr [JObj [(''message'', JObj [(''content'', JStr ''{}'')])]])]),
      embeddings_reply = Call_Ok [[0, 1]],
      qdrant_reply = Call_Ok (), now_start = 0, now_end = 1800, today = ''2025-09-09'',
      timestamp = ''2025-09-09T09:16:16.000Z'', new_uuid = ''uuid-1''\<rparr>"

section \<open>Properties of the chunker\<close>

lemma dropWhile_hd_id: "s \<noteq> [] \<Longrightarrow> \<not> P (hd s) \<Longrightarrow> dropWhile P s = s"
  by (cases s) auto

lemma trim_clean: "clean s \<Longrightarrow> trim s = s"
  by (simp add: clean_def trim_def dropWhile_hd_id hd_rev)

lemma last_dropWhile: "dropWhile P xs \<noteq> [] \<Longrightarrow> last (dropWhile P xs) = last xs"
  by (induction xs) auto

lemma clean_trim:
  assumes ne: "trim s \<noteq> []"
  shows "clean (trim s)"
proof -
  let ?a = "dropWhile is_space s"
  let ?b = "dropWhile is_space (rev ?a)"
  from ne have b: "?b \<noteq> []" by (simp add: trim_def)
  have a: "?a \<noteq> []"
  proof
    assume e: "?a = []"
    have "?b = []" unfolding e by simp
    with b show False ..
  qed
  have "\<not> is_space (hd ?b)" using b by (metis hd_dropWhile)
  then have l: "\<not> is_space (last (trim s))" using b by (simp add: trim_def last_rev)
  have "\<not> is_space (hd ?a)" using a by (metis hd_dropWhile)
  moreover have "last ?b = hd ?a" using b a by (simp add: last_dropWhile last_rev)
  ultimately have "\<not> is_space (hd (trim s))" using b by (simp add: trim_def hd_rev)
  with l ne show ?thesis by (simp add: clean_def)
qed

lemma clean_append: "clean a \<Longrightarrow> clean b \<Longrightarrow> clean (a @ x @ b)"
  by (simp add: clean_def)

lemma length_trim_le: "length (trim s) \<le> length s"
proof -
  have "length (trim s) \<le> length (dropWhile is_space s)"
    unfolding trim_def length_rev by (metis length_dropWhile_le length_rev)
  also have "\<dots> \<le> length s" by (rule length_dropWhile_le)
  finally show ?thesis .
qed

lemma join_append:
  "join sep (xs @ ys) = (if xs = [] then join sep ys else if ys = [] then join sep xs
                         else join sep xs @ sep @ join sep ys)"
  by (induction sep xs rule: join.induct) (auto simp: neq_Nil_conv)

lemma join_Cons: "join sep (x # ys) = (if ys = [] then x else x @ sep @ join sep ys)"
  by (cases ys) auto

lemma join_merge: "join sep (xs @ [a @ sep @ b] @ ys) = join sep (xs @ [a, b] @ ys)"
  by (simp add: join_append join_Cons)

text \<open>
  The loop invariant: what has been pushed, followed by the buffer and by the sentences
  still to come, joins to the same text at every step.
\<close>

lemma chunk_loop_join:
  assumes "\<forall>s\<in>set ss. trim s \<noteq> []" and "cur = [] \<or> clean cur"
  shows "join ''. '' (chunk_flush (foldl (chunk_step m) (chunks, cur) ss))
       = join ''. '' (chunks @ (if cur = [] then [] else [cur]) @ map trim ss)"
  using assms
proof (induction ss arbitrary: chunks cur)
  case Nil
  then show ?case by (auto simp: chunk_flush_def trim_clean)
next
  case (Cons s ss)
  have ts: "clean (trim s)" using Cons.prems(1) by (simp add: clean_trim)
  have rest: "\<forall>s\<in>set ss. trim s \<noteq> []" using Cons.prems(1) by simp
  have ne: "trim s \<noteq> []" using ts by (simp add: clean_def)
  show ?case
  proof (cases "int (length (cur @ s)) > m \<and> cur \<noteq> []")
    case True
    then have c: "clean cur" using Cons.prems(2) by simp
    have step: "chunk_step m (chunks, cur) s = (chunks @ [cur], trim s)"
      using True c by (simp add: chunk_step_def trim_clean)
    show ?thesis using Cons.IH[OF rest, of "trim s" "chunks @ [cur]"] ts True ne
      by (simp add: step)
  next
    case False
    show ?thesis
    proof (cases "cur = []")
      case True
      have step: "chunk_step m (chunks, []) s = (chunks, trim s)"
        by (simp add: chunk_step_def)
      show ?thesis using Cons.IH[OF rest, of "trim s" chunks] ts True ne
        by (simp add: step)
    next
      case nonempty: False
      then have c: "clean cur" using Cons.prems(2) by simp
      have step: "chunk_step m (chunks, cur) s = (chunks, cur @ ''. '' @ trim s)"
        using False nonempty by (auto simp add: chunk_step_def)
      have cl: "clean (cur @ ''. '' @ trim s)" using c ts by (rule clean_append)
      then have ne2: "cur @ ''. '' @ trim s \<noteq> []" by (simp add: clean_def)
      have "join ''. '' (chunk_flush (foldl (chunk_step m) (chunks, cur) (s # ss)))
          = join ''. '' (chunks @ [cur @ ''. '' @ trim s] @ map trim ss)"
        using Cons.IH[OF rest, of "cur @ ''. '' @ trim s" chunks] cl ne2
        by (simp only: foldl_Cons step if_False) simp
      also have "\<dots> = join ''. '' (chunks @ [cur, trim s] @ map trim ss)"
        by (rule join_merge)
      finally show ?thesis using nonempty by simp
    qed
  qed
qed

lemma assemble_join:
  "\<forall>s\<in>set ss. trim s \<noteq> [] \<Longrightarrow> join ''. '' (assemble m ss) = join ''. '' (map trim ss)"
  using chunk_loop_join[of ss "[]" m "[]"] by (simp add: assemble_def)

lemma sentences_nonblank: "\<forall>s\<in>set (sentences text). trim s \<noteq> []"
  by (simp add: sentences_def)

lemmas chunker_defs = chunkText_def assemble_def sentences_def chunk_step_def chunk_flush_def
  trim_def is_space_def is_terminator_def

lemma trim_idem: "trim (trim s) = trim s"
proof (cases "trim s = []")
  case True
  have "trim [] = []" by (simp add: trim_def)
  with True show ?thesis by (simp only:)
next
  case False
  then show ?thesis by (simp add: clean_trim trim_clean)
qed

text \<open>
  What the size check gives: a chunk is one trimmed sentence, or it is at most two
  characters longer than \<open>maxChunkSize\<close>. The test before appending compares
  \<open>(currentChunk + sentence).length\<close>, which leaves out the separator \<open>''. ''\<close> that the
  append then adds.
\<close>

lemma chunk_loop_bound:
  assumes "set ss \<subseteq> set all"
    and "\<forall>c\<in>set chunks. (\<exists>s\<in>set all. c = trim s) \<or> int (length c) \<le> m + 2"
    and "cur = [] \<or> (\<exists>s\<in>set all. cur = trim s) \<or> int (length cur) \<le> m + 2"
  shows "\<forall>c\<in>set (chunk_flush (foldl (chunk_step m) (chunks, cur) ss)).
           (\<exists>s\<in>set all. c = trim s) \<or> int (length c) \<le> m + 2"
  using assms
proof (induction ss arbitrary: chunks cur)
  case Nil
  have "(\<exists>s\<in>set all. trim cur = trim s) \<or> int (length (trim cur)) \<le> m + 2" if "cur \<noteq> []"
  proof -
    from Nil.prems(3) that consider (a) s where "s \<in> set all" "cur = trim s" | (b) "int (length cur) \<le> m + 2"
      by blast
    then show ?thesis
    proof cases
      case a
      then show ?thesis using trim_idem by blast
    next
      case b
      then show ?thesis using length_trim_le[of cur] by linarith
    qed
  qed
  then show ?case using Nil.prems(2) by (auto simp: chunk_flush_def)
next
  case (Cons s ss)
  have sall: "s \<in> set all" and rest: "set ss \<subseteq> set all" using Cons.prems(1) by auto
  show ?case
  proof (cases "int (length (cur @ s)) > m \<and> cur \<noteq> []")
    case True
    have step: "chunk_step m (chunks, cur) s = (chunks @ [trim cur], trim s)"
      using True by (simp add: chunk_step_def)
    have tc: "(\<exists>s\<in>set all. trim cur = trim s) \<or> int (length (trim cur)) \<le> m + 2"
    proof -
      from Cons.prems(3) True consider (a) s' where "s' \<in> set all" "cur = trim s'" | (b) "int (length cur) \<le> m + 2"
        by blast
      then show ?thesis
      proof cases
        case a
        then show ?thesis using trim_idem by blast
      next
        case b
        then show ?thesis using length_trim_le[of cur] by linarith
      qed
    qed
    have "\<forall>c\<in>set (chunk_flush (foldl (chunk_step m) (chunks @ [trim cur], trim s) ss)).
           (\<exists>s\<in>set all. c = trim s) \<or> int (length c) \<le> m + 2"
      using rest Cons.prems(2) tc sall by (intro Cons.IH) auto
    then show ?thesis by (simp only: foldl_Cons step)
  next
    case False
    show ?thesis
    proof (cases "cur = []")
      case True
      have step: "chunk_step m (chunks, cur) s = (chunks, trim s)"
        using True by (simp add: chunk_step_def)
      have "\<forall>c\<in>set (chunk_flush (foldl (chunk_step m) (chunks, trim s) ss)).
           (\<exists>s\<in>set all. c = trim s) \<or> int (length c) \<le> m + 2"
        using rest Cons.prems(2) sall by (intro Cons.IH) auto
      then show ?thesis by (simp only: foldl_Cons step)
    next
      case nonempty: False
      have step: "chunk_step m (chunks, cur) s = (chunks, cur @ ''. '' @ trim s)"
        using False nonempty by (auto simp add: chunk_step_def)
      have "int (length (cur @ s)) \<le> m" using False nonempty by simp
      then have len: "int (length (cur @ ''. '' @ trim s)) \<le> m + 2"
        using length_trim_le[of s] by simp
      have "\<forall>c\<in>set (chunk_flush (foldl (chunk_step m) (chunks, cur @ ''. '' @ trim s) ss)).
           (\<exists>s\<in>set all. c = trim s) \<or> int (length c) \<le> m + 2"
        using rest Cons.prems(2) len by (intro Cons.IH) auto
      then show ?thesis by (simp only: foldl_Cons step)
    qed
  qed
qed

lemma assemble_length_bound:
  "\<forall>c\<in>set (assemble m ss). (\<exists>s\<in>set ss. c = trim s) \<or> int (length c) \<le> m + 2"
  unfolding assemble_def by (rule chunk_loop_bound) auto

text \<open>
  Claim C1, as the code has it. Joined by \<open>''. ''\<close>, the chunks assembled by the loop
  give the trimmed non-blank sentences of the input joined by \<open>''. ''\<close>: no sentence is
  lost and none is reordered while chunks are assembled. \<open>chunkText\<close> returns the assembled
  chunks that are longer than 20 characters, so its own output joins to the sentences
  whenever no assembled chunk is 20 characters or shorter.
\<close>

theorem chunkText_keeps_sentences:
  "join ''. '' (assemble m (sentences text)) = join ''. '' (map trim (sentences text))
 \<and> chunkText text m = filter (\<lambda>c. 20 < length c) (assemble m (sentences text))
 \<and> ((\<forall>c\<in>set (assemble m (sentences text)). 20 < length c) \<longrightarrow>
      join ''. '' (chunkText text m) = join ''. '' (map trim (sentences text)))"
proof (intro conjI impI)
  show j: "join ''. '' (assemble m (sentences text)) = join ''. '' (map trim (sentences text))"
    using sentences_nonblank by (rule assemble_join)
  show f: "chunkText text m = filter (\<lambda>c. 20 < length c) (assemble m (sentences text))"
    by (simp add: chunkText_def)
  assume "\<forall>c\<in>set (assemble m (sentences text)). 20 < length c"
  then have "chunkText text m = assemble m (sentences text)"
    unfolding f by simp
  with j show "join ''. '' (chunkText text m) = join ''. '' (map trim (sentences text))"
    by simp
qed

text \<open>A text of two sentences that make one chunk of 46 characters.\<close>

lemma ex1: "assemble 500 (sentences ''Goods arrived in good order. Seals were intact'')
   = [''Goods arrived in good order. Seals were intact'']"
  by (simp add: chunker_defs)

theorem chunkText_keeps_sentences_witness:
  "assemble 500 (sentences ''Goods arrived in good order. Seals were intact'')
     = [''Goods arrived in good order. Seals were intact'']
 \<and> join ''. '' (chunkText ''Goods arrived in good order. Seals were intact'' 500)
     = join ''. '' (map trim (sentences ''Goods arrived in good order. Seals were intact''))"
proof -
  have h: "\<forall>c\<in>set (assemble 500 (sentences ''Goods arrived in good order. Seals were intact'')). 20 < length c"
    by (simp add: ex1)
  note T = chunkText_keeps_sentences[of 500 "''Goods arrived in good order. Seals were intact''"]
  from T have "(\<forall>c\<in>set (assemble 500 (sentences ''Goods arrived in good order. Seals were intact'')). 20 < length c) \<longrightarrow>
      join ''. '' (chunkText ''Goods arrived in good order. Seals were intact'' 500)
       = join ''. '' (map trim (sentences ''Goods arrived in good order. Seals were intact''))"
    by (elim conjE)
  with h have "join ''. '' (chunkText ''Goods arrived in good order. Seals were intact'' 500)
       = join ''. '' (map trim (sentences ''Goods arrived in good order. Seals were intact''))"
    by (rule rev_mp)
  with ex1 show ?thesis by (rule conjI)
qed

text \<open>
  Claim C1 as it is stated fails twice. With \<open>maxChunkSize = 10\<close> the sentence \<open>Hi\<close> is
  closed as a chunk of its own and then dropped for being short, so it is lost; so is
  the only sentence of the text \<open>Hello.\<close> at the default size 500. With
  \<open>maxChunkSize = 24\<close> two sentences of 12 characters, neither longer than the limit, are
  emitted as one chunk of 26 characters.
\<close>

theorem chunkText_counterexample:
  "map trim (sentences ''Hi. This sentence is long enough to stay.'')
     = [''Hi'', ''This sentence is long enough to stay'']
 \<and> chunkText ''Hi. This sentence is long enough to stay.'' 10
     = [''This sentence is long enough to stay'']
 \<and> sentences ''Hello.'' = [''Hello''] \<and> chunkText ''Hello.'' 500 = []
 \<and> sentences ''aaaaaaaaaaaa.bbbbbbbbbbbb'' = [''aaaaaaaaaaaa'', ''bbbbbbbbbbbb'']
 \<and> chunkText ''aaaaaaaaaaaa.bbbbbbbbbbbb'' 24 = [''aaaaaaaaaaaa. bbbbbbbbbbbb'']"
  by (simp add: chunker_defs)

text \<open>
  Claim C8, as the code has it. An assembled chunk is emitted exactly when it is longer
  than 20 characters (a chunk of exactly 20 characters is dropped); the emitted chunks
  keep their order; when every assembled chunk has at most 20 characters, nothing is
  emitted.
\<close>

theorem chunkText_drops_short_chunks:
  "(\<forall>c\<in>set (assemble m (sentences text)). c \<in> set (chunkText text m) \<longleftrightarrow> 20 < length c)
 \<and> subseq (chunkText text m) (assemble m (sentences text))
 \<and> ((\<forall>c\<in>set (assemble m (sentences text)). length c \<le> 20) \<longrightarrow> chunkText text m = [])"
  by (auto simp: chunkText_def filter_empty_conv)

lemma ex2: "assemble 500 (sentences ''Short. Text'') = [''Short. Text'']"
  by (simp add: chunker_defs)

theorem chunkText_drops_short_chunks_witness:
  "assemble 500 (sentences ''Short. Text'') = [''Short. Text'']
 \<and> chunkText ''Short. Text'' 500 = []"
proof -
  have h: "\<forall>c\<in>set (assemble 500 (sentences ''Short. Text'')). length c \<le> 20"
    by (simp add: ex2)
  note T = chunkText_drops_short_chunks[of 500 "''Short. Text''"]
  from T have "(\<forall>c\<in>set (assemble 500 (sentences ''Short. Text'')). length c \<le> 20)
     \<longrightarrow> chunkText ''Short. Text'' 500 = []"
    by (elim conjE)
  with h have "chunkText ''Short. Text'' 500 = []" by (rule rev_mp)
  with ex2 show ?thesis by (rule conjI)
qed

text \<open>
  Claim C8 as it is stated fails: an assembled chunk of exactly 20 characters is not
  emitted.
\<close>

theorem chunkText_threshold_counterexample:
  "assemble 500 (sentences ''Twenty characters ok'') = [''Twenty characters ok'']
 \<and> length ''Twenty characters ok'' = 20
 \<and> chunkText ''Twenty characters ok'' 500 = []"
  by (simp add: chunker_defs)

text \<open>
  The length of the input text does not bound the chunks: the separators grow from one
  character to two, and an input of 15 characters gives a chunk of 22.
\<close>

lemma chunkText_short_input_example:
  "length ''a.b.c.d.e.f.g.h'' = 15 \<and> chunkText ''a.b.c.d.e.f.g.h'' 500 = [''a. b. c. d. e. f. g. h'']"
  by (simp add: chunker_defs)

section \<open>Properties of the validator\<close>















subsection \<open>The weight pattern\<close>

lemma digit_not_space: "is_digit c \<Longrightarrow> \<not> is_space c"
  by (auto simp: is_digit_def is_space_def)

lemma digit_not_point: "is_digit c \<Longrightarrow> c \<noteq> CHR ''.'' \<and> c \<noteq> CHR '',''"
  by (auto simp: is_digit_def)

lemma upper_id:
  assumes "c \<notin> set ''abcdefghijklmnopqrstuvwxyz''"
  shows "upper c = c"
proof -
  have len: "length ''abcdefghijklmnopqrstuvwxyz'' = length ''ABCDEFGHIJKLMNOPQRSTUVWXYZ''" by simp
  note E = map_of_zip_is_None[OF len, of c]
  from E assms have "map_of (zip ''abcdefghijklmnopqrstuvwxyz'' ''ABCDEFGHIJKLMNOPQRSTUVWXYZ'') c = None"
    by (rule iffD2)
  then show ?thesis by (simp only: upper_def option.case)
qed

lemma not_lower:
  "is_digit c \<or> is_space c \<or> c = CHR ''.'' \<or> c = CHR '','' \<Longrightarrow> c \<notin> set ''abcdefghijklmnopqrstuvwxyz''"
  by (auto simp: is_digit_def is_space_def)

lemma upper_fix:
  "is_digit c \<or> is_space c \<or> c = CHR ''.'' \<or> c = CHR '','' \<Longrightarrow> upper c = c"
  by (rule upper_id) (rule not_lower)

lemma upper_units: "map (map upper) weight_units = [''KG'', ''LBS'', ''LB'', ''TONS'', ''TON'', ''TONNES'', ''TONNE'']"
  by (simp add: weight_units_def upper_def)

lemma unit_head:
  assumes "is_weight_unit u"
  shows "\<exists>c cs. u = c # cs \<and> \<not> is_digit c \<and> \<not> is_space c \<and> c \<noteq> CHR ''.'' \<and> c \<noteq> CHR '',''"
proof -
  from assms obtain p where p: "p \<in> set weight_units" "map upper u = map upper p"
    by (auto simp: is_weight_unit_def)
  from p(1) have "map upper p \<in> set (map (map upper) weight_units)" by simp
  then have "\<exists>h t. map upper p = h # t \<and> h \<in> set ''KLT''"
    unfolding upper_units by auto
  then obtain h t where ht: "map upper p = h # t" "h \<in> set ''KLT''" by (elim exE conjE)
  with p(2) obtain c cs where u: "u = c # cs" "upper c = h" by (cases u) auto
  have "\<not> (is_digit c \<or> is_space c \<or> c = CHR ''.'' \<or> c = CHR '','')"
  proof
    assume a: "is_digit c \<or> is_space c \<or> c = CHR ''.'' \<or> c = CHR '',''"
    then have "upper c = c" by (rule upper_fix)
    with u(2) ht(2) have "c \<in> set ''KLT''" by simp
    with a show False by (auto simp: is_digit_def is_space_def)
  qed
  with u(1) show ?thesis by blast
qed

lemma starts_ci_iff: "starts_ci p t \<longleftrightarrow> (\<exists>u post. t = u @ post \<and> map upper u = map upper p)"
proof
  assume s: "starts_ci p t"
  then have "t = take (length p) t @ drop (length p) t \<and> map upper (take (length p) t) = map upper p"
    by (simp add: starts_ci_def)
  then show "\<exists>u post. t = u @ post \<and> map upper u = map upper p" by blast
next
  assume "\<exists>u post. t = u @ post \<and> map upper u = map upper p"
  then obtain u post where t: "t = u @ post" and m: "map upper u = map upper p" by blast
  from m have "length u = length p" by (metis length_map)
  with t m show "starts_ci p t" by (simp add: starts_ci_def)
qed

lemma unit_here_iff: "unit_here t \<longleftrightarrow> (\<exists>u post. t = u @ post \<and> is_weight_unit u)"
  unfolding unit_here_def list_ex_iff is_weight_unit_def starts_ci_iff by blast

text \<open>The two ways the pattern matches at a position: with the fraction, or without.\<close>

lemma weight_at_group:
  assumes "takeWhile is_digit t \<noteq> []" and "dropWhile is_digit t = c # r'"
    and "c = CHR ''.'' \<or> c = CHR '',''" and "takeWhile is_digit r' \<noteq> []"
  shows "weight_at t = (if unit_here (dropWhile is_space (dropWhile is_digit r'))
                        then Some (takeWhile is_digit t @ [c] @ takeWhile is_digit r') else None)"
  using assms by (simp add: weight_at_def Let_def)

lemma weight_at_plain:
  assumes "takeWhile is_digit t \<noteq> []"
    and "\<And>c r'. dropWhile is_digit t = c # r' \<Longrightarrow> \<not> ((c = CHR ''.'' \<or> c = CHR '','') \<and> takeWhile is_digit r' \<noteq> [])"
  shows "weight_at t = (if unit_here (dropWhile is_space (dropWhile is_digit t))
                        then Some (takeWhile is_digit t) else None)"
proof (cases "dropWhile is_digit t")
  case Nil
  then show ?thesis using assms(1) by (simp add: weight_at_def Let_def del: dropWhile_eq_Nil_conv)
next
  case (Cons c r')
  from assms(2)[OF Cons]
  have cond: "((c = CHR ''.'' \<or> c = CHR '','') \<and> takeWhile is_digit r' \<noteq> []) = False" by simp
  from assms(1) have neF: "(takeWhile is_digit t = []) = False" by simp
  show ?thesis
    by (simp only: weight_at_def Let_def Cons list.case cond neF if_False prod.case)
qed

lemma weight_at_none: "takeWhile is_digit t = [] \<Longrightarrow> weight_at t = None"
  by (simp add: weight_at_def Let_def)

lemma all_takeWhile: "list_all P (takeWhile P xs)"
  by (induction xs) auto

lemma is_weight_number_plain: "ds \<noteq> [] \<Longrightarrow> list_all is_digit ds \<Longrightarrow> is_weight_number ds"
  unfolding is_weight_number_def by blast

lemma is_weight_number_frac:
  "ds \<noteq> [] \<Longrightarrow> list_all is_digit ds \<Longrightarrow> c = CHR ''.'' \<or> c = CHR '','' \<Longrightarrow>
   fs \<noteq> [] \<Longrightarrow> list_all is_digit fs \<Longrightarrow> is_weight_number (ds @ c # fs)"
  unfolding is_weight_number_def by blast

lemma weight_at_sound:
  assumes "weight_at t = Some num"
  shows "\<exists>ws u post. t = num @ ws @ u @ post \<and> is_weight_number num \<and> list_all is_space ws \<and> is_weight_unit u"
proof -
  let ?ds = "takeWhile is_digit t" and ?r1 = "dropWhile is_digit t"
  have t: "t = ?ds @ ?r1" by simp
  have dsd: "list_all is_digit ?ds" by (rule all_takeWhile)
  have ne: "?ds \<noteq> []"
  proof
    assume "?ds = []"
    then have "weight_at t = None" by (rule weight_at_none)
    with assms show False by simp
  qed
  show ?thesis
  proof (cases "\<exists>c r'. ?r1 = c # r' \<and> (c = CHR ''.'' \<or> c = CHR '','') \<and> takeWhile is_digit r' \<noteq> []")
    case True
    then obtain c r' where r1: "?r1 = c # r'" and c: "c = CHR ''.'' \<or> c = CHR '',''"
      and fs: "takeWhile is_digit r' \<noteq> []"
      by (elim exE conjE)
    let ?fs = "takeWhile is_digit r'" and ?r2 = "dropWhile is_digit r'"
    note W = weight_at_group[OF ne r1 c fs]
    from assms W have un: "unit_here (dropWhile is_space ?r2)"
      by (cases "unit_here (dropWhile is_space ?r2)") simp_all
    with assms W have num: "num = ?ds @ [c] @ ?fs" by simp
    from un obtain u post where up: "dropWhile is_space ?r2 = u @ post" "is_weight_unit u"
      unfolding unit_here_iff by (elim exE conjE)
    let ?ws = "takeWhile is_space ?r2"
    have "?r2 = ?ws @ dropWhile is_space ?r2" by simp
    then have r2: "?r2 = ?ws @ u @ post" by (simp only: up(1))
    have "r' = ?fs @ ?r2" by simp
    then have r': "r' = ?fs @ ?ws @ u @ post" using r2 by (simp only:)
    have "t = ?ds @ c # r'" using t r1 by (simp only:)
    then have "t = ?ds @ c # ?fs @ ?ws @ u @ post" using r' by (simp only:)
    then have tt: "t = num @ ?ws @ u @ post" unfolding num by simp
    have fsd: "list_all is_digit ?fs" by (rule all_takeWhile)
    have "is_weight_number (?ds @ c # ?fs)" using ne dsd c fs fsd by (rule is_weight_number_frac)
    then have "is_weight_number num" unfolding num by simp
    moreover have "list_all is_space ?ws" by (rule all_takeWhile)
    ultimately show ?thesis using up(2) tt by blast
  next
    case False
    then have "\<And>c r'. ?r1 = c # r' \<Longrightarrow> \<not> ((c = CHR ''.'' \<or> c = CHR '','') \<and> takeWhile is_digit r' \<noteq> [])"
      by blast
    note W = weight_at_plain[OF ne this]
    from assms W have un: "unit_here (dropWhile is_space ?r1)"
      by (cases "unit_here (dropWhile is_space ?r1)") simp_all
    with assms W have num: "num = ?ds" by simp
    from un obtain u post where up: "dropWhile is_space ?r1 = u @ post" "is_weight_unit u"
      unfolding unit_here_iff by (elim exE conjE)
    let ?ws = "takeWhile is_space ?r1"
    have "?r1 = ?ws @ dropWhile is_space ?r1" by simp
    then have r1: "?r1 = ?ws @ u @ post" by (simp only: up(1))
    have "t = ?ds @ ?ws @ u @ post" using t r1 by (simp only:)
    then have tt: "t = num @ ?ws @ u @ post" unfolding num .
    have "is_weight_number num" unfolding num using ne dsd by (rule is_weight_number_plain)
    moreover have "list_all is_space ?ws" by (rule all_takeWhile)
    ultimately show ?thesis using up(2) tt by blast
  qed
qed

lemma space_not_point: "is_space c \<Longrightarrow> c \<noteq> CHR ''.'' \<and> c \<noteq> CHR '',''"
  by (auto simp: is_space_def)

lemma takeWhile_stop: "ys = [] \<or> \<not> P (hd ys) \<Longrightarrow> takeWhile P ys = []"
  by (cases ys) auto

lemma dropWhile_stop: "ys = [] \<or> \<not> P (hd ys) \<Longrightarrow> dropWhile P ys = ys"
  by (cases ys) auto

lemma takeWhile_all: "list_all P xs \<Longrightarrow> (ys = [] \<or> \<not> P (hd ys)) \<Longrightarrow> takeWhile P (xs @ ys) = xs"
  by (induction xs) (simp_all add: takeWhile_stop)

lemma dropWhile_all: "list_all P xs \<Longrightarrow> (ys = [] \<or> \<not> P (hd ys)) \<Longrightarrow> dropWhile P (xs @ ys) = ys"
  by (induction xs) (simp_all add: dropWhile_stop)

lemma weight_at_complete:
  assumes t: "t = num @ ws @ u @ post" and n: "is_weight_number num"
    and w: "list_all is_space ws" and u: "is_weight_unit u"
  shows "weight_at t = Some num"
proof -
  from unit_head[OF u] obtain uc us where us: "u = uc # us" and uc: "\<not> is_digit uc" "\<not> is_space uc"
    "uc \<noteq> CHR ''.''" "uc \<noteq> CHR '',''" by (elim exE conjE)
  define rest where "rest = ws @ u @ post"
  have rest_ne: "rest \<noteq> []" by (simp add: rest_def us)
  have hd_rest: "\<not> is_digit (hd rest) \<and> hd rest \<noteq> CHR ''.'' \<and> hd rest \<noteq> CHR '',''"
  proof (cases ws)
    case Nil
    then show ?thesis using uc by (simp add: rest_def us)
  next
    case (Cons a as)
    with w have "is_space a" by simp
    then show ?thesis using Cons digit_not_space[of a] space_not_point[of a] by (auto simp: rest_def)
  qed
  have "dropWhile is_space (ws @ u @ post) = u @ post"
    using w by (rule dropWhile_all) (simp add: us uc)
  then have dsp: "dropWhile is_space rest = u @ post" by (simp only: rest_def)
  have un: "unit_here (dropWhile is_space rest)"
    unfolding dsp unit_here_iff using u by blast
  have nodig: "rest = [] \<or> \<not> is_digit (hd rest)" using hd_rest by simp
  from n obtain ds where ds: "ds \<noteq> []" "list_all is_digit ds"
    and alt: "num = ds \<or> (\<exists>c fs. (c = CHR ''.'' \<or> c = CHR '','') \<and> fs \<noteq> [] \<and> list_all is_digit fs \<and> num = ds @ c # fs)"
    unfolding is_weight_number_def by (elim exE conjE)
  from alt show ?thesis
  proof
    assume num: "num = ds"
    have tt: "t = ds @ rest" by (simp add: t num rest_def)
    have tk: "takeWhile is_digit t = ds" unfolding tt using ds(2) nodig by (rule takeWhile_all)
    have dr: "dropWhile is_digit t = rest" unfolding tt using ds(2) nodig by (rule dropWhile_all)
    have "weight_at t = (if unit_here (dropWhile is_space (dropWhile is_digit t))
                        then Some (takeWhile is_digit t) else None)"
    proof (rule weight_at_plain)
      show "takeWhile is_digit t \<noteq> []" unfolding tk by (rule ds(1))
    next
      fix c r' assume "dropWhile is_digit t = c # r'"
      then have "hd rest = c" by (simp add: dr)
      with hd_rest show "\<not> ((c = CHR ''.'' \<or> c = CHR '','') \<and> takeWhile is_digit r' \<noteq> [])" by blast
    qed
    then show ?thesis using un by (simp only: tk dr num if_True)
  next
    assume "\<exists>c fs. (c = CHR ''.'' \<or> c = CHR '','') \<and> fs \<noteq> [] \<and> list_all is_digit fs \<and> num = ds @ c # fs"
    then obtain c fs where c: "c = CHR ''.'' \<or> c = CHR '',''" and fs: "fs \<noteq> []" "list_all is_digit fs"
      and num: "num = ds @ c # fs" by (elim exE conjE)
    have cnd: "\<not> is_digit c" using c digit_not_point[of c] by blast
    have tt: "t = ds @ (c # fs @ rest)" by (simp add: t num rest_def)
    have nd: "(c # fs @ rest) = [] \<or> \<not> is_digit (hd (c # fs @ rest))" using cnd by simp
    have tk: "takeWhile is_digit t = ds" unfolding tt using ds(2) nd by (rule takeWhile_all)
    have dr: "dropWhile is_digit t = c # fs @ rest" unfolding tt using ds(2) nd by (rule dropWhile_all)
    have tk2: "takeWhile is_digit (fs @ rest) = fs" using fs(2) nodig by (rule takeWhile_all)
    have dr2: "dropWhile is_digit (fs @ rest) = rest" using fs(2) nodig by (rule dropWhile_all)
    have "weight_at t = (if unit_here (dropWhile is_space (dropWhile is_digit (fs @ rest)))
                        then Some (takeWhile is_digit t @ [c] @ takeWhile is_digit (fs @ rest)) else None)"
    proof (rule weight_at_group)
      show "takeWhile is_digit t \<noteq> []" unfolding tk by (rule ds(1))
      show "dropWhile is_digit t = c # fs @ rest" by (rule dr)
      show "c = CHR ''.'' \<or> c = CHR '',''" by (rule c)
      show "takeWhile is_digit (fs @ rest) \<noteq> []" unfolding tk2 by (rule fs(1))
    qed
    then show ?thesis using un by (simp add: tk dr2 tk2 num)
  qed
qed

text \<open>
  At a position the pattern matches exactly when the text there is a numeral, white
  space and a unit, and the first group is that numeral: the numeral at a position is
  unique.
\<close>

lemma weight_at_iff:
  "weight_at t = Some num \<longleftrightarrow>
     (\<exists>ws u post. t = num @ ws @ u @ post \<and> is_weight_number num \<and> list_all is_space ws \<and> is_weight_unit u)"
  using weight_at_sound weight_at_complete by blast



text \<open>The match that \<open>weight.match\<close> returns is the one at the leftmost position that has one.\<close>

lemma weight_match_leftmost:
  "weight_match w = Some num \<Longrightarrow>
     \<exists>pre t. w = pre @ t \<and> weight_at t = Some num
        \<and> (\<forall>pre' t'. w = pre' @ t' \<and> length pre' < length pre \<longrightarrow> weight_at t' = None)"
proof (induction w)
  case Nil
  then have False by (simp add: weight_at_none)
  then show ?case ..
next
  case (Cons c cs)
  show ?case
  proof (cases "weight_at (c # cs)")
    case (Some a)
    with Cons.prems have "weight_at (c # cs) = Some num" by simp
    then show ?thesis by (intro exI[of _ "[]"] exI[of _ "c # cs"]) simp
  next
    case None
    with Cons.prems have "weight_match cs = Some num" by simp
    from Cons.IH[OF this] obtain pre t where cs: "cs = pre @ t" and a: "weight_at t = Some num"
      and l: "\<forall>pre' t'. cs = pre' @ t' \<and> length pre' < length pre \<longrightarrow> weight_at t' = None"
      by blast
    have "weight_at t' = None" if "c # cs = pre' @ t'" "length pre' < length (c # pre)" for pre' t'
    proof (cases pre')
      case Nil
      with that None show ?thesis by simp
    next
      case (Cons x xs)
      with that have "cs = xs @ t'" "length xs < length pre" by simp_all
      with l show ?thesis by blast
    qed
    then show ?thesis using cs a by (intro exI[of _ "c # pre"] exI[of _ t]) simp
  qed
qed













section \<open>Properties of the layout stage\<close>

lemma split_char_nonempty: "split_char sep s \<noteq> []"
  by (induction s) (auto split: list.splits)

text \<open>What the loop collects, as two filters of the lines.\<close>

lemma layout_scan_general:
  "foldl layout_step (kvs, tds) ls =
     (kvs @ map key_value_of (filter (\<lambda>l. CHR '':'' \<in> set l \<and> CHR ''|'' \<notin> set l) ls),
      tds @ map cells_of (filter (\<lambda>l. CHR ''|'' \<in> set l) ls))"
  by (induction ls arbitrary: kvs tds) (auto simp: layout_step_def)

lemma layout_scan_eq:
  "layout_scan ls =
     (map key_value_of (filter (\<lambda>l. CHR '':'' \<in> set l \<and> CHR ''|'' \<notin> set l) ls),
      map cells_of (filter (\<lambda>l. CHR ''|'' \<in> set l) ls))"
  by (simp add: layout_scan_def layout_scan_general)

text \<open>
  Claim C7. A line that contains both \<open>:\<close> and \<open>|\<close> adds its cells to the table rows
  and adds nothing to the key-value pairs: the key-value pairs of the result come from
  the lines with a \<open>:\<close> and no \<open>|\<close> only. When fewer than two lines contain \<open>|\<close> the table
  list of the result is empty; with two or more there is one table, its headers the
  first row.
\<close>

theorem parseLayout_table_priority:
  "(CHR '':'' \<in> set line \<and> CHR ''|'' \<in> set line \<longrightarrow>
      layout_step (kvPairs, tableData) line = (kvPairs, tableData @ [cells_of line]))
 \<and> keyValuePairs (parseLayout ocrResult) =
      map key_value_of (filter (\<lambda>l. CHR '':'' \<in> set l \<and> CHR ''|'' \<notin> set l)
        (nonblank_lines (ocr_text ocrResult)))
 \<and> (length (filter (\<lambda>l. CHR ''|'' \<in> set l) (nonblank_lines (ocr_text ocrResult))) < 2 \<longrightarrow>
      tables (parseLayout ocrResult) = [])
 \<and> (2 \<le> length (filter (\<lambda>l. CHR ''|'' \<in> set l) (nonblank_lines (ocr_text ocrResult))) \<longrightarrow>
      (\<exists>t. tables (parseLayout ocrResult) = [t] \<and>
           headers t # rows t = map cells_of (filter (\<lambda>l. CHR ''|'' \<in> set l) (nonblank_lines (ocr_text ocrResult)))))"
proof (intro conjI impI)
  assume "CHR '':'' \<in> set line \<and> CHR ''|'' \<in> set line"
  then show "layout_step (kvPairs, tableData) line = (kvPairs, tableData @ [cells_of line])"
    by (simp add: layout_step_def)
next
  show "keyValuePairs (parseLayout ocrResult) =
      map key_value_of (filter (\<lambda>l. CHR '':'' \<in> set l \<and> CHR ''|'' \<notin> set l)
        (nonblank_lines (ocr_text ocrResult)))"
    by (simp add: parseLayout_def Let_def layout_scan_eq)
next
  assume "length (filter (\<lambda>l. CHR ''|'' \<in> set l) (nonblank_lines (ocr_text ocrResult))) < 2"
  then show "tables (parseLayout ocrResult) = []"
    by (simp add: parseLayout_def Let_def layout_scan_eq tables_of_def)
next
  let ?td = "map cells_of (filter (\<lambda>l. CHR ''|'' \<in> set l) (nonblank_lines (ocr_text ocrResult)))"
  assume a: "2 \<le> length (filter (\<lambda>l. CHR ''|'' \<in> set l) (nonblank_lines (ocr_text ocrResult)))"
  then have len: "2 \<le> length ?td" by simp
  then obtain h t where ht: "?td = h # t" by (cases ?td) auto
  have "tables (parseLayout ocrResult) = tables_of ?td"
    by (simp add: parseLayout_def Let_def layout_scan_eq)
  also have "\<dots> = [\<lparr>headers = h, rows = t, table_bbox = [50, 200, 500, 300]\<rparr>]"
    using len unfolding ht by (auto simp: tables_of_def)
  finally show "\<exists>t. tables (parseLayout ocrResult) = [t] \<and> headers t # rows t = ?td"
    unfolding ht by simp
qed

text \<open>One line with both characters: a table row, no key-value pair, and no table.\<close>

lemma lines_example: "nonblank_lines (ocr_text (performOCR ''Ratio: a|b'')) = [''Ratio: a|b'']"
  by (simp add: performOCR_def nonblank_lines_def trim_def is_space_def)

lemma cells_example: "cells_of ''Ratio: a|b'' = [''Ratio: a'', ''b'']"
  by (simp add: cells_of_def trim_def is_space_def)

theorem parseLayout_table_priority_witness:
  "layout_step ([], []) ''Ratio: a|b'' = ([], [[''Ratio: a'', ''b'']])
 \<and> keyValuePairs (parseLayout (performOCR ''Ratio: a|b'')) = []
 \<and> tables (parseLayout (performOCR ''Ratio: a|b'')) = []"
proof -
  note T = parseLayout_table_priority[of "''Ratio: a|b''" "[]" "[]" "performOCR ''Ratio: a|b''"]
  have h1: "CHR '':'' \<in> set ''Ratio: a|b'' \<and> CHR ''|'' \<in> set ''Ratio: a|b''" by simp
  from T have "CHR '':'' \<in> set ''Ratio: a|b'' \<and> CHR ''|'' \<in> set ''Ratio: a|b'' \<longrightarrow>
      layout_step ([], []) ''Ratio: a|b'' = ([], [] @ [cells_of ''Ratio: a|b''])"
    by (rule conjunct1)
  from this h1 have "layout_step ([], []) ''Ratio: a|b'' = ([], [] @ [cells_of ''Ratio: a|b''])"
    by (rule mp)
  then have a: "layout_step ([], []) ''Ratio: a|b'' = ([], [[''Ratio: a'', ''b'']])"
    by (simp only: cells_example append_Nil)
  from T have "keyValuePairs (parseLayout (performOCR ''Ratio: a|b'')) =
      map key_value_of (filter (\<lambda>l. CHR '':'' \<in> set l \<and> CHR ''|'' \<notin> set l)
        (nonblank_lines (ocr_text (performOCR ''Ratio: a|b''))))"
    by (elim conjE)
  then have b: "keyValuePairs (parseLayout (performOCR ''Ratio: a|b'')) = []"
    unfolding lines_example by simp
  have h3: "length (filter (\<lambda>l. CHR ''|'' \<in> set l) (nonblank_lines (ocr_text (performOCR ''Ratio: a|b'')))) < 2"
    unfolding lines_example by simp
  from T have "length (filter (\<lambda>l. CHR ''|'' \<in> set l) (nonblank_lines (ocr_text (performOCR ''Ratio: a|b'')))) < 2 \<longrightarrow>
      tables (parseLayout (performOCR ''Ratio: a|b'')) = []"
    by (elim conjE)
  from this h3 have c: "tables (parseLayout (performOCR ''Ratio: a|b'')) = []" by (rule mp)
  from a b c show ?thesis by (intro conjI)
qed

section \<open>Properties of the extraction stage\<close>














section \<open>Properties of the enhanced pipeline\<close>





lemma run_pipeline_fails:
  "performAIAnalysis json_parse (ai_reply env) = Inl e \<Longrightarrow> run_pipeline json_parse env (JStr s) = Inl e"
  by (simp add: run_pipeline_def Let_def)










section \<open>Properties of analyze-docs\<close>






section \<open>Properties of process-documents\<close>

lemma write_progress_existing:
  "jobs db k = Some j \<Longrightarrow>
   write_progress k p f db =
     db\<lparr>jobs := (jobs db)(k \<mapsto> (f j)\<lparr>job_progress := p\<rparr>), progress_writes := progress_writes db @ [(k, p)]\<rparr>"
  by (simp add: write_progress_def)

lemma write_progress_missing: "jobs db k = None \<Longrightarrow> write_progress k p f db = db"
  by (simp add: write_progress_def)

lemmas pd_eval = process_documents_def try_block_def catch_block_def read_json_def clone_request_def
  run_job_def Let_def job_key_def truthy_opt_def progress_update_def write_progress_def update_job_def
  extractStructuredData_def performOCR_pd_def parseLayout_pd_def

text \<open>
  Claim C4 fails on the code. The job \<open>job-1\<close> exists and is pending; the request is a
  POST whose JSON body names it; the model service answers 401, so
  \<open>extractStructuredData\<close> throws after the progress 50 was written. In the \<open>catch\<close> block
  \<open>req.clone()\<close> throws, because \<open>req.json()\<close> has read the body: the exception leaves the
  handler, the update that would mark the job failed is never reached, and the job stays
  \<open>running\<close> with progress 50 and no error message.
\<close>

theorem process_documents_leaves_job_running:
  "fst (process_documents json_parse env_model_unauthorized request_job_1 db_one_job)
     = Escaped (Js_Error ''TypeError'' ''Body is unusable'')
 \<and> jobs (snd (process_documents json_parse env_model_unauthorized request_job_1 db_one_job)) ''job-1''
     = Some (pending_job\<lparr>job_status := ''running'', job_progress := 50\<rparr>)
 \<and> progress_writes (snd (process_documents json_parse env_model_unauthorized request_job_1 db_one_job))
     = [(''job-1'', 10), (''job-1'', 30), (''job-1'', 50)]"
  by (simp add: pd_eval env_model_unauthorized_def request_job_1_def db_one_job_def)

text \<open>Storing the entities touches neither the jobs nor the progress values.\<close>

lemma insert_entities_frame:
  "insert_entities doc es db = (r, db') \<Longrightarrow> jobs db' = jobs db \<and> progress_writes db' = progress_writes db"
proof (induction es arbitrary: db)
  case Nil
  then show ?case by auto
next
  case (Cons entity es)
  show ?case
  proof (cases "get_prop entity ''type''")
    case None
    with Cons.prems show ?thesis by auto
  next
    case (Some t)
    let ?db = "db\<lparr>entity_rows := entity_rows db @
                 [\<lparr>ent_document_id = doc, ent_type = t, ent_value = get_opt entity ''value'',
                   ent_confidence = get_opt entity ''confidence''\<rparr>]\<rparr>"
    from Cons.prems Some have "insert_entities doc es ?db = (r, db')" by simp
    from Cons.IH[OF this] show ?thesis by simp
  qed
qed

lemma store_entities_frame:
  "store_entities x jr db = (r, db') \<Longrightarrow> jobs db' = jobs db \<and> progress_writes db' = progress_writes db"
  unfolding store_entities_def
  by (auto split: option.splits if_splits dest: insert_entities_frame)

lemma progress_step:
  assumes "job_key jid = Some k"
    and "d = db\<lparr>jobs := (jobs db)(k \<mapsto> j1), progress_writes := ws\<rparr>"
  shows "progress_update jid p d =
           db\<lparr>jobs := (jobs db)(k \<mapsto> j1\<lparr>job_progress := p\<rparr>), progress_writes := ws @ [(k, p)]\<rparr>"
  using assms by (simp add: progress_update_def write_progress_def)

text \<open>
  A run for a job whose row exists: it stops with an exception at one of the
  checkpoints 50, 70, 90 with the job \<open>running\<close>, or it ends with the job \<open>completed\<close> at
  100, all checkpoints written in order.
\<close>

lemma run_job_existing:
  assumes k: "job_key (job_id rb) = Some k" and j: "jobs db k = Some j"
  shows "case run_job json_parse env rb db of
           (Inl e, db') \<Rightarrow>
             (jobs db' = (jobs db)(k \<mapsto> j\<lparr>job_status := ''running'', job_progress := 50\<rparr>)
                \<and> progress_writes db' = progress_writes db @ map (Pair k) [10, 30, 50])
           \<or> (jobs db' = (jobs db)(k \<mapsto> j\<lparr>job_status := ''running'', job_progress := 70\<rparr>)
                \<and> progress_writes db' = progress_writes db @ map (Pair k) [10, 30, 50, 70])
           \<or> (jobs db' = (jobs db)(k \<mapsto> j\<lparr>job_status := ''running'', job_progress := 90\<rparr>)
                \<and> progress_writes db' = progress_writes db @ map (Pair k) [10, 30, 50, 70, 90])
         | (Inr resp, db') \<Rightarrow>
             resp_status resp = 200
             \<and> (\<exists>jf. jobs db' = (jobs db)(k \<mapsto> jf) \<and> job_status jf = ''completed'' \<and> job_progress jf = 100
                    \<and> job_error_message jf = job_error_message j)
             \<and> progress_writes db' = progress_writes db @ map (Pair k) [10, 30, 50, 70, 90, 100]"
proof -
  let ?db1 = "write_progress k 10 (\<lambda>j. j\<lparr>job_status := ''running''\<rparr>) db"
  let ?j1 = "j\<lparr>job_status := ''running'', job_progress := 10\<rparr>"
  have db1: "?db1 = db\<lparr>jobs := (jobs db)(k \<mapsto> ?j1), progress_writes := progress_writes db @ [(k, 10)]\<rparr>"
    using j by (simp add: write_progress_existing)
  have db2: "progress_update (job_id rb) 30 ?db1 =
      db\<lparr>jobs := (jobs db)(k \<mapsto> j\<lparr>job_status := ''running'', job_progress := 30\<rparr>),
                      progress_writes := progress_writes db @ [(k, 10), (k, 30)]\<rparr>"
    using progress_step[OF k db1, of 30] by simp
  define db3 where "db3 = progress_update (job_id rb) 50 (progress_update (job_id rb) 30 ?db1)"
  have db3: "db3 = db\<lparr>jobs := (jobs db)(k \<mapsto> j\<lparr>job_status := ''running'', job_progress := 50\<rparr>),
                      progress_writes := progress_writes db @ [(k, 10), (k, 30), (k, 50)]\<rparr>"
    unfolding db3_def using progress_step[OF k db2, of 50] by simp
  define db4 where "db4 = progress_update (job_id rb) 70 db3"
  have db4: "db4 = db\<lparr>jobs := (jobs db)(k \<mapsto> j\<lparr>job_status := ''running'', job_progress := 70\<rparr>),
                      progress_writes := progress_writes db @ [(k, 10), (k, 30), (k, 50), (k, 70)]\<rparr>"
    unfolding db4_def using progress_step[OF k db3, of 70] by simp
  define db5 where "db5 = progress_update (job_id rb) 90 db4"
  have db5: "db5 = db\<lparr>jobs := (jobs db)(k \<mapsto> j\<lparr>job_status := ''running'', job_progress := 90\<rparr>),
                      progress_writes := progress_writes db @ [(k, 10), (k, 30), (k, 50), (k, 70), (k, 90)]\<rparr>"
    unfolding db5_def using progress_step[OF k db4, of 90] by simp
  show ?thesis
  proof (cases "extractStructuredData json_parse env")
    case (Inl e)
    then have "run_job json_parse env rb db = (Inl e, db3)"
      by (simp add: run_job_def Let_def k db3_def)
    then show ?thesis by (simp add: db3)
  next
    case ex: (Inr extractedData)
    show ?thesis
    proof (cases "generateEmbeddings (embeddings_reply env)")
      case (Inl e)
      then have "run_job json_parse env rb db = (Inl e, db4)"
        by (simp add: run_job_def Let_def k db3_def db4_def ex)
      then show ?thesis by (simp add: db4)
    next
      case em: (Inr vectors)
      show ?thesis
      proof (cases "storeInQdrant (qdrant_reply env)")
        case (Inl e)
        then have "run_job json_parse env rb db = (Inl e, db4)"
          by (simp add: run_job_def Let_def k db3_def db4_def ex em)
        then show ?thesis by (simp add: db4)
      next
        case st: (Inr u)
        obtain r db6 where se: "store_entities extractedData (jobs db k) db5 = (r, db6)"
          by (cases "store_entities extractedData (jobs db k) db5") auto
        from store_entities_frame[OF se]
        have f6: "jobs db6 = jobs db5" "progress_writes db6 = progress_writes db5" by simp_all
        show ?thesis
        proof (cases r)
          case (Some e)
          then have "run_job json_parse env rb db = (Inl e, db6)"
            using se by (simp add: run_job_def Let_def k db3_def db4_def db5_def ex em st)
          then show ?thesis by (simp add: f6 db5)
        next
          case None
          let ?content = "(case document_content rb of
                                 None \<Rightarrow> ''File content from storage''
                               | Some c \<Rightarrow> if c = [] then ''File content from storage'' else c)"
          let ?F = "finish_run env (job_id rb) (performOCR_pd ?content)
                 (parseLayout_pd (performOCR_pd ?content)) extractedData
                 (chunkText_pd (pd_text (performOCR_pd ?content)) 500) vectors db6"
          obtain resp db7 where fr: "?F = (resp, db7)" by (cases ?F) auto
          have rj: "run_job json_parse env rb db = (Inr resp, db7)"
            using se None fr by (simp add: run_job_def Let_def k db3_def db4_def db5_def ex em st)
          have j6: "jobs db6 k = Some (j\<lparr>job_status := ''running'', job_progress := 90\<rparr>)"
            by (simp add: f6 db5)
          from fr have "resp_status resp = 200
             \<and> (\<exists>jf. jobs db7 = (jobs db)(k \<mapsto> jf) \<and> job_status jf = ''completed'' \<and> job_progress jf = 100
                    \<and> job_error_message jf = job_error_message j)
             \<and> progress_writes db7 = progress_writes db @ map (Pair k) [10, 30, 50, 70, 90, 100]"
            by (auto simp: finish_run_def Let_def k write_progress_existing[OF j6] f6 db5)
          then show ?thesis by (simp add: rj)
        qed
      qed
    qed
  qed
qed

text \<open>A run without a job id, or for a job that has no row, writes nothing to the jobs.\<close>

lemma run_job_frame:
  assumes pu: "\<And>p d. jobs d = jobs db \<Longrightarrow> progress_update (job_id rb) p d = d"
    and fr: "\<And>ocr layout x tc v d. jobs d = jobs db \<Longrightarrow> snd (finish_run env (job_id rb) ocr layout x tc v d) = d"
    and st: "(case job_key (job_id rb) of None \<Rightarrow> db
              | Some k \<Rightarrow> write_progress k 10 (\<lambda>j. j\<lparr>job_status := ''running''\<rparr>) db) = db"
  shows "jobs (snd (run_job json_parse env rb db)) = jobs db
       \<and> progress_writes (snd (run_job json_parse env rb db)) = progress_writes db"
proof -
  have pu': "progress_update (job_id rb) p db = db" for p by (rule pu) simp
  show ?thesis
  proof (cases "extractStructuredData json_parse env")
    case (Inl e)
    then show ?thesis by (simp add: run_job_def Let_def st pu')
  next
    case ex: (Inr extractedData)
    show ?thesis
    proof (cases "generateEmbeddings (embeddings_reply env)")
      case (Inl e)
      then show ?thesis by (simp add: run_job_def Let_def st pu' ex)
    next
      case em: (Inr vectors)
      show ?thesis
      proof (cases "storeInQdrant (qdrant_reply env)")
        case (Inl e)
        then show ?thesis by (simp add: run_job_def Let_def st pu' ex em)
      next
        case sq: (Inr u)
        let ?jr = "(case job_key (job_id rb) of None \<Rightarrow> None | Some k \<Rightarrow> jobs db k)"
        obtain r db6 where se: "store_entities extractedData ?jr db = (r, db6)"
          by (cases "store_entities extractedData ?jr db") auto
        from store_entities_frame[OF se]
        have f6: "jobs db6 = jobs db" "progress_writes db6 = progress_writes db" by simp_all
        show ?thesis
        proof (cases r)
          case (Some e)
          then show ?thesis using se by (simp add: run_job_def Let_def st pu' ex em sq f6)
        next
          case None
          then show ?thesis using se fr[OF f6(1)]
            by (simp add: run_job_def Let_def st pu' ex em sq f6 case_prod_beta)
        qed
      qed
    qed
  qed
qed

lemma run_job_without_key:
  assumes "job_key (job_id rb) = None"
  shows "jobs (snd (run_job json_parse env rb db)) = jobs db
       \<and> progress_writes (snd (run_job json_parse env rb db)) = progress_writes db"
  by (rule run_job_frame) (simp_all add: assms progress_update_def finish_run_def Let_def)

lemma run_job_missing_row:
  assumes k: "job_key (job_id rb) = Some k" and n: "jobs db k = None"
  shows "jobs (snd (run_job json_parse env rb db)) = jobs db
       \<and> progress_writes (snd (run_job json_parse env rb db)) = progress_writes db"
  by (rule run_job_frame) (simp_all add: k n progress_update_def finish_run_def Let_def write_progress_missing)

text \<open>
  After a JSON body was read the body is used, so the \<open>catch\<close> block always fails at
  \<open>req.clone()\<close>: the handler answers with the response of the \<open>try\<close> block or lets an
  exception out.
\<close>

lemma try_block_json:
  assumes "payload req = Json_Body rb" and "truthy_opt (document_content rb) \<or> truthy_opt (file_path rb)"
  shows "try_block json_parse env req db =
           (fst (run_job json_parse env rb db), snd (run_job json_parse env rb db), True)"
  using assms by (auto simp: try_block_def read_json_def case_prod_beta)

lemma catch_block_used:
  "payload req \<noteq> Null_Body \<Longrightarrow>
   catch_block env error req True db = (Escaped (Js_Error ''TypeError'' ''Body is unusable''), db)"
  by (simp add: catch_block_def clone_request_def)

lemma process_documents_json:
  assumes "http_method req = ''POST''" and "payload req = Json_Body rb"
    and "truthy_opt (document_content rb) \<or> truthy_opt (file_path rb)"
  shows "process_documents json_parse env req db =
           (case fst (run_job json_parse env rb db) of
              Inr resp \<Rightarrow> (Responded resp, snd (run_job json_parse env rb db))
            | Inl error \<Rightarrow> (Escaped (Js_Error ''TypeError'' ''Body is unusable''),
                            snd (run_job json_parse env rb db)))"
proof -
  have p: "payload req \<noteq> Null_Body" using assms(2) by simp
  show ?thesis
    unfolding process_documents_def try_block_json[OF assms(2,3)]
    using assms(1) by (simp add: catch_block_used[OF p] split: sum.split)
qed

text \<open>
  The defect in general: whenever a stage throws in a run for a job whose row exists,
  the exception leaves the handler and the job is left \<open>running\<close>, its error message as
  it was, its progress at the last checkpoint.
\<close>

theorem process_documents_failure_escapes:
  assumes "http_method req = ''POST''" and "payload req = Json_Body rb"
    and "truthy_opt (document_content rb) \<or> truthy_opt (file_path rb)"
    and k: "job_key (job_id rb) = Some k" and j: "jobs db k = Some j"
    and e: "fst (run_job json_parse env rb db) = Inl e"
  shows "fst (process_documents json_parse env req db) = Escaped (Js_Error ''TypeError'' ''Body is unusable'')
       \<and> (\<exists>j'. jobs (snd (process_documents json_parse env req db)) k = Some j'
              \<and> job_status j' = ''running'' \<and> job_error_message j' = job_error_message j
              \<and> (job_progress j' = 50 \<or> job_progress j' = 70 \<or> job_progress j' = 90))"
proof -
  have pd: "process_documents json_parse env req db =
      (Escaped (Js_Error ''TypeError'' ''Body is unusable''), snd (run_job json_parse env rb db))"
    by (simp add: process_documents_json[OF assms(1-3)] e)
  obtain r db' where rj: "run_job json_parse env rb db = (r, db')"
    by (cases "run_job json_parse env rb db") auto
  with e have r: "r = Inl e" by simp
  from run_job_existing[OF k j, of json_parse env] rj r
  have "(\<exists>j'. jobs db' k = Some j' \<and> job_status j' = ''running'' \<and> job_error_message j' = job_error_message j
              \<and> (job_progress j' = 50 \<or> job_progress j' = 70 \<or> job_progress j' = 90))"
    by auto
  then show ?thesis by (simp add: pd rj)
qed

text \<open>
  The part of C4 about a successful run holds: the response has status 200, the job is
  \<open>completed\<close> at 100, and the progress values written are 10, 30, 50, 70, 90, 100.
\<close>

theorem process_documents_success:
  assumes "http_method req = ''POST''" and "payload req = Json_Body rb"
    and "truthy_opt (document_content rb) \<or> truthy_opt (file_path rb)"
    and k: "job_key (job_id rb) = Some k" and j: "jobs db k = Some j"
    and ok: "fst (run_job json_parse env rb db) = Inr resp"
  shows "fst (process_documents json_parse env req db) = Responded resp \<and> resp_status resp = 200
       \<and> (\<exists>j'. jobs (snd (process_documents json_parse env req db)) k = Some j'
              \<and> job_status j' = ''completed'' \<and> job_progress j' = 100)
       \<and> progress_writes (snd (process_documents json_parse env req db)) =
           progress_writes db @ map (Pair k) [10, 30, 50, 70, 90, 100]"
proof -
  have pd: "process_documents json_parse env req db = (Responded resp, snd (run_job json_parse env rb db))"
    by (simp add: process_documents_json[OF assms(1-3)] ok)
  obtain r db' where rj: "run_job json_parse env rb db = (r, db')"
    by (cases "run_job json_parse env rb db") auto
  with ok have r: "r = Inr resp" by simp
  from run_job_existing[OF k j, of json_parse env] rj r
  have "resp_status resp = 200
       \<and> (\<exists>j'. jobs db' k = Some j' \<and> job_status j' = ''completed'' \<and> job_progress j' = 100)
       \<and> progress_writes db' = progress_writes db @ map (Pair k) [10, 30, 50, 70, 90, 100]"
    by auto
  then show ?thesis by (simp add: pd rj)
qed

text \<open>
  The part of C4 about the progress values holds for every run: the values a call writes
  are in non-decreasing order.
\<close>

lemma run_job_progress_sorted:
  "\<exists>ws. progress_writes (snd (run_job json_parse env rb db)) = progress_writes db @ ws \<and> sorted (map snd ws)"
proof (cases "job_key (job_id rb)")
  case None
  from run_job_without_key[OF this, of json_parse env db] show ?thesis by simp
next
  case (Some k)
  show ?thesis
  proof (cases "jobs db k")
    case None
    from run_job_missing_row[OF Some this, of json_parse env] show ?thesis by simp
  next
    case (Some j)
    obtain r db' where rj: "run_job json_parse env rb db = (r, db')"
      by (cases "run_job json_parse env rb db") auto
    from run_job_existing[OF \<open>job_key (job_id rb) = Some k\<close> Some, of json_parse env] rj
    have "progress_writes db' = progress_writes db @ map (Pair k) [10, 30, 50]
        \<or> progress_writes db' = progress_writes db @ map (Pair k) [10, 30, 50, 70]
        \<or> progress_writes db' = progress_writes db @ map (Pair k) [10, 30, 50, 70, 90]
        \<or> progress_writes db' = progress_writes db @ map (Pair k) [10, 30, 50, 70, 90, 100]"
      by (cases r) auto
    then show ?thesis unfolding rj snd_conv
      by (elim disjE) (rule exI, rule conjI, assumption, simp)+
  qed
qed

lemma catch_block_progress: "progress_writes (snd (catch_block env error req used db)) = progress_writes db"
  by (simp add: catch_block_def update_job_def Let_def split: sum.split option.split prod.split)

theorem process_documents_progress_sorted:
  "\<exists>ws. progress_writes (snd (process_documents json_parse env req db)) = progress_writes db @ ws
       \<and> sorted (map snd ws)"
proof -
  obtain r db' used where tb: "try_block json_parse env req db = (r, db', used)"
    by (cases "try_block json_parse env req db") auto
  have t: "\<exists>ws. progress_writes db' = progress_writes db @ ws \<and> sorted (map snd ws)"
  proof (cases "read_json req False")
    case (Pair res u)
    show ?thesis
    proof (cases res)
      case (Inl e)
      with Pair tb have "db' = db" by (simp add: try_block_def)
      then show ?thesis by simp
    next
      case (Inr rb)
      show ?thesis
      proof (cases "\<not> truthy_opt (document_content rb) \<and> \<not> truthy_opt (file_path rb)")
        case True
        with Pair Inr tb have "db' = db" by (simp add: try_block_def)
        then show ?thesis by simp
      next
        case False
        with Pair Inr tb have "db' = snd (run_job json_parse env rb db)"
          by (auto simp: try_block_def case_prod_beta)
        then show ?thesis using run_job_progress_sorted by simp
      qed
    qed
  qed
  have "progress_writes (snd (process_documents json_parse env req db)) = progress_writes db
      \<or> progress_writes (snd (process_documents json_parse env req db)) = progress_writes db'"
    by (simp add: process_documents_def tb catch_block_progress split: sum.split)
  then show ?thesis using t by auto
qed

end
